theory Spec2Isabelle
  imports Complex_Main "HOL-Library.Multiset"
begin

section \<open>JavaScript values\<close>

text \<open>
  The handlers of \<^verbatim>\<open>server.js\<close> receive JSON payloads and test them with JavaScript's
  truthiness, \<^verbatim>\<open>isNaN\<close> and \<^verbatim>\<open>parseFloat\<close>. A number is an IEEE double; its finite
  values are read as reals (the two zeros are one value, both falsy), the three special
  values are constructors of their own. Payload fields are primitive values; a field that
  is absent reads as \<^verbatim>\<open>undefined\<close>.
\<close>

datatype jsnumber = Fin real | NaN | PosInfinity | NegInfinity

datatype jsval = JUndefined | JNull | JBool bool | JNum jsnumber | JStr string

text \<open>\<^verbatim>\<open>!v\<close> is \<open>\<not> truthy v\<close>: undefined, null, false, 0, NaN and the empty string are falsy.\<close>

fun truthy :: "jsval \<Rightarrow> bool" where
  "truthy JUndefined = False"
| "truthy JNull = False"
| "truthy (JBool b) = b"
| "truthy (JNum n) = (n \<noteq> Fin 0 \<and> n \<noteq> NaN)"
| "truthy (JStr s) = (s \<noteq> [])"

datatype error = TypeError | CastError | ValidationError

section \<open>Schemas\<close>

text \<open>
  The Mongoose schemas of \<^verbatim>\<open>server.js\<close>, lines 24 to 55. An ObjectId is kept as the
  value the schema cast produced; a \<^verbatim>\<open>Date\<close> is its number of milliseconds. The
  \<^verbatim>\<open>name\<close> and \<^verbatim>\<open>status\<close> fields of two schemas get a prefix, as do the
  coordinates of a stop.
\<close>

record driver =
  driver_id :: jsval
  driver_name :: string
  phone :: string
  isActive :: bool
  currentRoute :: jsval

datatype stop_status = Pending | Completed

record stop =
  address :: string
  stop_lat :: real
  stop_lng :: real
  sequenceOrder :: nat
  status :: stop_status
  completedAt :: "int option"

datatype route_status = Route_active | Route_completed | Route_pending

record route =
  route_id :: jsval
  route_name :: string
  driver :: jsval
  stops :: "stop list"
  route_status :: route_status
  createdAt :: int
  totalDistance :: string
  estimatedTime :: string

record location =
  driverId :: jsval
  lat :: jsval
  lng :: jsval
  timestamp :: int

section \<open>The runtime and the database driver\<close>

text \<open>
  What the handlers call but the repository does not define is a parameter of the model:
  the string conversions of the JavaScript runtime (\<^verbatim>\<open>Number(s)\<close>, \<^verbatim>\<open>parseFloat(s)\<close>,
  \<^verbatim>\<open>n.toString()\<close>), the casts Mongoose applies to a field of type ObjectId or Number
  (\<open>None\<close> is a CastError, which makes \<^verbatim>\<open>save\<close> and \<^verbatim>\<open>findById\<close> reject), the
  order in which MongoDB's \<^verbatim>\<open>$sort\<close> stage hands the documents on, and the names
  that, apart from the indices and \<^verbatim>\<open>length\<close>, read a truthy value from a Mongoose
  array (its methods, such as \<^verbatim>\<open>push\<close>).
\<close>

record env =
  StringToNumber :: "string \<Rightarrow> jsnumber"
  parseFloat_str :: "string \<Rightarrow> jsnumber"
  NumberToString :: "jsnumber \<Rightarrow> string"
  castObjectId :: "jsval \<Rightarrow> jsval option"
  castNumber :: "jsval \<Rightarrow> jsval option"
  sort_timestamp_desc :: "location list \<Rightarrow> location list"
  array_property :: "string \<Rightarrow> bool"

text \<open>\<^verbatim>\<open>Number(v)\<close>, the conversion \<^verbatim>\<open>isNaN\<close> applies to its argument.\<close>

fun ToNumber :: "env \<Rightarrow> jsval \<Rightarrow> jsnumber" where
  "ToNumber e JUndefined = NaN"
| "ToNumber e JNull = Fin 0"
| "ToNumber e (JBool b) = Fin (if b then 1 else 0)"
| "ToNumber e (JNum n) = n"
| "ToNumber e (JStr s) = StringToNumber e s"

definition isNaN :: "env \<Rightarrow> jsval \<Rightarrow> bool" where
  "isNaN e v = (ToNumber e v = NaN)"

text \<open>
  \<^verbatim>\<open>parseFloat(v)\<close> parses the string form of \<open>v\<close>. The string form of a number parses
  back to that number; \<^verbatim>\<open>"undefined"\<close>, \<^verbatim>\<open>"null"\<close>, \<^verbatim>\<open>"true"\<close> and \<^verbatim>\<open>"false"\<close>
  start with no digit.
\<close>

fun parseFloat :: "env \<Rightarrow> jsval \<Rightarrow> jsnumber" where
  "parseFloat e (JNum n) = n"
| "parseFloat e (JStr s) = parseFloat_str e s"
| "parseFloat e v = NaN"

text \<open>\<^verbatim>\<open>v.toString()\<close>: a TypeError on undefined and null.\<close>

fun toString :: "env \<Rightarrow> jsval \<Rightarrow> error + string" where
  "toString e JUndefined = Inl TypeError"
| "toString e JNull = Inl TypeError"
| "toString e (JBool b) = Inr (if b then ''true'' else ''false'')"
| "toString e (JNum n) = Inr (NumberToString e n)"
| "toString e (JStr s) = Inr s"

section \<open>State\<close>

text \<open>
  The three collections, the sockets connected to the Socket.IO server, and the events
  delivered so far, each with the socket it went to. Console output is not part of the
  state. Every handler runs from its first line to its last without another one in
  between.
\<close>

type_synonym socket_id = string

datatype event =
    Driver_location jsval jsval jsval int
  | Stop_update jsval jsval

record state =
  drivers :: "driver list"
  routes :: "route list"
  locations :: "location list"
  sockets :: "socket_id list"
  delivered :: "(socket_id \<times> event) list"

definition init :: state where
  "init = \<lparr>drivers = [], routes = [], locations = [], sockets = [], delivered = []\<rparr>"

text \<open>\<^verbatim>\<open>socket.broadcast.emit\<close>: to every connected socket but the one it is called on.\<close>

definition broadcast_emit :: "socket_id \<Rightarrow> event \<Rightarrow> state \<Rightarrow> state" where
  "broadcast_emit sid ev st =
     st\<lparr>delivered := delivered st @ map (\<lambda>c. (c, ev)) (filter (\<lambda>c. c \<noteq> sid) (sockets st))\<rparr>"

definition connection :: "socket_id \<Rightarrow> state \<Rightarrow> state" where
  "connection sid st = st\<lparr>sockets := sockets st @ [sid]\<rparr>"

definition disconnect :: "socket_id \<Rightarrow> state \<Rightarrow> state" where
  "disconnect sid st = st\<lparr>sockets := filter (\<lambda>c. c \<noteq> sid) (sockets st)\<rparr>"

section \<open>Model calls\<close>

fun update_first :: "('a \<Rightarrow> bool) \<Rightarrow> ('a \<Rightarrow> 'a) \<Rightarrow> 'a list \<Rightarrow> 'a list" where
  "update_first P f [] = []"
| "update_first P f (x # xs) = (if P x then f x # xs else x # update_first P f xs)"

text \<open>
  \<^verbatim>\<open>new Location({driverId, lat, lng})\<close> followed by \<^verbatim>\<open>save()\<close>: each field goes
  through the cast of its schema type, \<^verbatim>\<open>timestamp\<close> defaults to the clock, and a
  failed cast makes \<^verbatim>\<open>save\<close> reject.
\<close>

definition Location_save :: "env \<Rightarrow> int \<Rightarrow> jsval \<Rightarrow> jsval \<Rightarrow> jsval \<Rightarrow> state \<Rightarrow> error + state" where
  "Location_save e now i la lo st =
     (case (castObjectId e i, castNumber e la, castNumber e lo) of
        (Some i', Some la', Some lo') \<Rightarrow>
          Inr (st\<lparr>locations := locations st @
                 [\<lparr>driverId = i', lat = la', lng = lo', timestamp = now\<rparr>]\<rparr>)
      | _ \<Rightarrow> Inl ValidationError)"

text \<open>
  The same under the Location schema of \<^verbatim>\<open>README.md\<close>, lines 318 to 323, which the
  validated handler is written for: \<^verbatim>\<open>driverId\<close> is a required String, so the empty
  string fails validation, and the two coordinates are required Numbers, so a
  coordinate that is cast to null or to nothing fails it too.
\<close>

definition Location_save_required ::
  "env \<Rightarrow> int \<Rightarrow> string \<Rightarrow> jsval \<Rightarrow> jsval \<Rightarrow> state \<Rightarrow> error + state" where
  "Location_save_required e now s la lo st =
     (case (castNumber e la, castNumber e lo) of
        (Some la', Some lo') \<Rightarrow>
          if s = [] \<or> la' = JUndefined \<or> la' = JNull \<or> lo' = JUndefined \<or> lo' = JNull
          then Inl ValidationError
          else Inr (st\<lparr>locations := locations st @
                      [\<lparr>driverId = JStr s, lat = la', lng = lo', timestamp = now\<rparr>]\<rparr>)
      | _ \<Rightarrow> Inl ValidationError)"

text \<open>
  \<^verbatim>\<open>Driver.findByIdAndUpdate(id, update)\<close>: the id is cast, the first driver with that
  id is updated; when there is none, nothing is.
\<close>

definition Driver_findByIdAndUpdate ::
  "env \<Rightarrow> jsval \<Rightarrow> (driver \<Rightarrow> driver) \<Rightarrow> state \<Rightarrow> error + state" where
  "Driver_findByIdAndUpdate e i upd st =
     (case castObjectId e i of
        None \<Rightarrow> Inl CastError
      | Some i' \<Rightarrow> Inr (st\<lparr>drivers := update_first (\<lambda>d. driver_id d = i') upd (drivers st)\<rparr>))"

definition Route_findById :: "env \<Rightarrow> jsval \<Rightarrow> state \<Rightarrow> error + route option" where
  "Route_findById e i st =
     (case castObjectId e i of
        None \<Rightarrow> Inl CastError
      | Some i' \<Rightarrow> Inr (find (\<lambda>r. route_id r = i') (routes st)))"

text \<open>\<^verbatim>\<open>route.save()\<close> on a route that was read from the collection writes it back.\<close>

definition Route_save :: "route \<Rightarrow> state \<Rightarrow> state" where
  "Route_save r st =
     st\<lparr>routes := update_first (\<lambda>x. route_id x = route_id r) (\<lambda>_. r) (routes st)\<rparr>"

text \<open>
  The element of the stops array under an integer: the stop, or nothing outside
  \<open>[0, length)\<close>.
\<close>

definition stop_at :: "stop list \<Rightarrow> int \<Rightarrow> stop option" where
  "stop_at ss i = (if 0 \<le> i \<and> i < int (length ss) then Some (ss ! nat i) else None)"

text \<open>
  \<^verbatim>\<open>route.stops[stopIndex]\<close>. The handlers index the array with what the request
  carries, a path segment (a string) or a value of the payload, and JavaScript reads
  the property of that name. A number that is an integer, and a string that is the
  decimal numeral of an integer (no sign or a minus, no leading zero), name that
  integer; the property exists when the integer is an index of the array, and is the
  stop, an object and hence truthy. Any other number, a boolean, null and undefined
  name no property of an array. Of the other strings \<^verbatim>\<open>length\<close> reads the number of
  stops, truthy unless there is none, and the rest is the runtime's to say.
\<close>

definition digit_value :: "char \<Rightarrow> nat option" where
  "digit_value c = map_of (zip ''0123456789'' [0, 1, 2, 3, 4, 5, 6, 7, 8, 9]) c"

fun digits_value :: "nat \<Rightarrow> string \<Rightarrow> nat option" where
  "digits_value acc [] = Some acc"
| "digits_value acc (c # cs) =
     (case digit_value c of None \<Rightarrow> None | Some d \<Rightarrow> digits_value (10 * acc + d) cs)"

definition canonical_decimal :: "string \<Rightarrow> nat option" where
  "canonical_decimal s =
     (case s of
        [] \<Rightarrow> None
      | c # cs \<Rightarrow> if c = CHR ''0'' \<and> cs \<noteq> [] then None else digits_value 0 s)"

fun integer_of_key :: "jsval \<Rightarrow> int option" where
  "integer_of_key (JNum (Fin x)) = (if of_int \<lfloor>x\<rfloor> = x then Some \<lfloor>x\<rfloor> else None)"
| "integer_of_key (JStr (c # cs)) =
     (if c = CHR ''-''
      then (case canonical_decimal cs of
              None \<Rightarrow> None
            | Some n \<Rightarrow> if n = 0 then None else Some (- int n))
      else map_option int (canonical_decimal (c # cs)))"
| "integer_of_key k = None"

datatype member = Element stop | Other_value | Absent

definition stops_member :: "env \<Rightarrow> stop list \<Rightarrow> jsval \<Rightarrow> member" where
  "stops_member e ss k =
     (case integer_of_key k of
        Some i \<Rightarrow> (case stop_at ss i of Some s \<Rightarrow> Element s | None \<Rightarrow> Absent)
      | None \<Rightarrow>
          (case k of
             JStr s \<Rightarrow>
               if s = ''length'' then (if ss = [] then Absent else Other_value)
               else if array_property e s then Other_value else Absent
           | _ \<Rightarrow> Absent))"

section \<open>Socket handlers\<close>

datatype outcome = Done | Invalid_coordinates | Not_found | Caught error

record location_data =
  data_driverId :: jsval
  data_lat :: jsval
  data_lng :: jsval

text \<open>
  \<^verbatim>\<open>socket.on('location-update')\<close>, \<^verbatim>\<open>server.js\<close> lines 66 to 93. A payload that cannot
  be destructured (undefined or null) is \<open>None\<close>. \<open>now\<close> is the clock when the document
  is built, \<open>now'\<close> when the event is built. Whatever is thrown is caught and logged.
\<close>

definition location_update ::
  "env \<Rightarrow> int \<Rightarrow> int \<Rightarrow> socket_id \<Rightarrow> location_data option \<Rightarrow> state \<Rightarrow> outcome \<times> state" where
  "location_update e now now' sid data st =
     (case data of
        None \<Rightarrow> (Caught TypeError, st)
      | Some d \<Rightarrow>
          (case Location_save e now (data_driverId d) (data_lat d) (data_lng d) st of
             Inl err \<Rightarrow> (Caught err, st)
           | Inr st1 \<Rightarrow>
               (case Driver_findByIdAndUpdate e (data_driverId d) (\<lambda>x. x\<lparr>isActive := True\<rparr>) st1 of
                  Inl err \<Rightarrow> (Caught err, st1)
                | Inr st2 \<Rightarrow>
                    (Done, broadcast_emit sid
                       (Driver_location (data_driverId d) (data_lat d) (data_lng d) now') st2))))"

text \<open>
  The handler \<^verbatim>\<open>README.md\<close> gives in its place, lines 515 to 552: it returns early
  on \<^verbatim>\<open>!lat || !lng || isNaN(lat) || isNaN(lng)\<close>, stores \<^verbatim>\<open>driverId.toString()\<close>
  and the \<^verbatim>\<open>parseFloat\<close> of each coordinate under the Location schema of
  \<^verbatim>\<open>README.md\<close>, and emits the parsed coordinates.
\<close>

definition location_update_validated ::
  "env \<Rightarrow> int \<Rightarrow> int \<Rightarrow> socket_id \<Rightarrow> location_data option \<Rightarrow> state \<Rightarrow> outcome \<times> state" where
  "location_update_validated e now now' sid data st =
     (case data of
        None \<Rightarrow> (Caught TypeError, st)
      | Some d \<Rightarrow>
          if \<not> truthy (data_lat d) \<or> \<not> truthy (data_lng d)
             \<or> isNaN e (data_lat d) \<or> isNaN e (data_lng d)
          then (Invalid_coordinates, st)
          else
            (case toString e (data_driverId d) of
               Inl err \<Rightarrow> (Caught err, st)
             | Inr s \<Rightarrow>
                 (case Location_save_required e now s (JNum (parseFloat e (data_lat d)))
                         (JNum (parseFloat e (data_lng d))) st of
                    Inl err \<Rightarrow> (Caught err, st)
                  | Inr st1 \<Rightarrow>
                      (case Driver_findByIdAndUpdate e (data_driverId d)
                              (\<lambda>x. x\<lparr>isActive := True\<rparr>) st1 of
                         Inl err \<Rightarrow> (Caught err, st1)
                       | Inr st2 \<Rightarrow>
                           (Done, broadcast_emit sid
                              (Driver_location (data_driverId d)
                                 (JNum (parseFloat e (data_lat d)))
                                 (JNum (parseFloat e (data_lng d))) now') st2)))))"

record stop_data =
  data_routeId :: jsval
  data_stopIndex :: jsval

text \<open>
  The two assignments of both completion handlers, \<^verbatim>\<open>status = 'completed'\<close> and
  \<^verbatim>\<open>completedAt = new Date()\<close>, on the stop at an index that \<open>stop_at\<close> found.
\<close>

definition mark_completed :: "int \<Rightarrow> int \<Rightarrow> route \<Rightarrow> route" where
  "mark_completed now i r =
     r\<lparr>stops := (stops r)[nat i := ((stops r) ! nat i)\<lparr>status := Completed\<rparr>\<lparr>completedAt := Some now\<rparr>]\<rparr>"

text \<open>
  The same two assignments on \<^verbatim>\<open>route.stops[stopIndex]\<close>, run when that value is
  truthy. On a value that is no stop (the length, a method) they set properties of a
  number, which is dropped in a module that is not in strict mode, or of a function:
  nothing of the route changes.
\<close>

definition assign_completed :: "int \<Rightarrow> jsval \<Rightarrow> route \<Rightarrow> route" where
  "assign_completed now k r =
     (case integer_of_key k of Some i \<Rightarrow> mark_completed now i r | None \<Rightarrow> r)"

text \<open>\<^verbatim>\<open>socket.on('stop-completed')\<close>, \<^verbatim>\<open>server.js\<close> lines 96 to 116.\<close>

definition stop_completed ::
  "env \<Rightarrow> int \<Rightarrow> socket_id \<Rightarrow> stop_data option \<Rightarrow> state \<Rightarrow> outcome \<times> state" where
  "stop_completed e now sid data st =
     (case data of
        None \<Rightarrow> (Caught TypeError, st)
      | Some d \<Rightarrow>
          (case Route_findById e (data_routeId d) st of
             Inl err \<Rightarrow> (Caught err, st)
           | Inr None \<Rightarrow> (Not_found, st)
           | Inr (Some r) \<Rightarrow>
               (case stops_member e (stops r) (data_stopIndex d) of
                  Absent \<Rightarrow> (Not_found, st)
                | _ \<Rightarrow>
                    (Done, broadcast_emit sid (Stop_update (data_routeId d) (data_stopIndex d))
                       (Route_save (assign_completed now (data_stopIndex d) r) st)))))"

section \<open>HTTP handlers\<close>

record latest =
  latest_id :: jsval
  latest_lat :: jsval
  latest_lng :: jsval
  latest_timestamp :: int

datatype response =
    Redirect string
  | Send nat string
  | Json nat "(string \<times> jsval) list"
  | Json_locations "latest list"

text \<open>
  \<^verbatim>\<open>POST /api/routes\<close>, lines 147 to 178. \<open>addresses\<close> is \<open>None\<close> when the body field
  is no array, so that \<^verbatim>\<open>addresses.map\<close> throws. \<open>rnd\<close> gives the draws of
  \<^verbatim>\<open>Math.random()\<close>, two for each stop, and \<open>new_id\<close> the id of the new document.
\<close>

definition mock_stop :: "(nat \<Rightarrow> real) \<Rightarrow> nat \<Rightarrow> string \<Rightarrow> stop" where
  "mock_stop rnd index a =
     \<lparr>address = a,
      stop_lat = 40.7128 + (rnd (2 * index) - 0.5) * 0.1,
      stop_lng = - 74.0060 + (rnd (2 * index + 1) - 0.5) * 0.1,
      sequenceOrder = index,
      status = Pending,
      completedAt = None\<rparr>"

definition post_routes ::
  "env \<Rightarrow> int \<Rightarrow> jsval \<Rightarrow> (nat \<Rightarrow> real) \<Rightarrow> string \<Rightarrow> jsval \<Rightarrow> string list option \<Rightarrow> state
     \<Rightarrow> response \<times> state" where
  "post_routes e now new_id rnd name i addresses st =
     (case addresses of
        None \<Rightarrow> (Send 500 ''Server Error'', st)
      | Some as \<Rightarrow>
          (case castObjectId e i of
             None \<Rightarrow> (Send 500 ''Server Error'', st)
           | Some i' \<Rightarrow>
               (let r = \<lparr>route_id = new_id, route_name = name, driver = i',
                         stops = map (\<lambda>(index, a). mock_stop rnd index a) (enumerate 0 as),
                         route_status = Route_pending, createdAt = now,
                         totalDistance = ''25.4 miles'', estimatedTime = ''2h 15m''\<rparr>;
                    st1 = st\<lparr>routes := routes st @ [r]\<rparr>
                in case Driver_findByIdAndUpdate e i (\<lambda>x. x\<lparr>currentRoute := new_id\<rparr>) st1 of
                     Inl err \<Rightarrow> (Send 500 ''Server Error'', st1)
                   | Inr st2 \<Rightarrow> (Redirect ''/'', st2))))"

text \<open>\<^verbatim>\<open>POST /api/drivers\<close>, lines 190 to 199.\<close>

definition post_drivers :: "jsval \<Rightarrow> string \<Rightarrow> string \<Rightarrow> state \<Rightarrow> response \<times> state" where
  "post_drivers new_id name ph st =
     (Redirect ''/drivers'',
      st\<lparr>drivers := drivers st @
           [\<lparr>driver_id = new_id, driver_name = name, phone = ph, isActive = False,
             currentRoute = JUndefined\<rparr>]\<rparr>)"

text \<open>
  \<^verbatim>\<open>POST /api/routes/:routeId/stops/:stopIndex/complete\<close>, lines 217 to 234. Both
  path parameters reach the handler as strings, \<open>JStr\<close> values here.
\<close>

definition post_complete :: "env \<Rightarrow> int \<Rightarrow> jsval \<Rightarrow> jsval \<Rightarrow> state \<Rightarrow> response \<times> state" where
  "post_complete e now routeId stopIndex st =
     (case Route_findById e routeId st of
        Inl err \<Rightarrow> (Json 500 [(''error'', JStr ''Server Error'')], st)
      | Inr None \<Rightarrow> (Json 404 [(''error'', JStr ''Route or stop not found'')], st)
      | Inr (Some r) \<Rightarrow>
          (case stops_member e (stops r) stopIndex of
             Absent \<Rightarrow> (Json 404 [(''error'', JStr ''Route or stop not found'')], st)
           | _ \<Rightarrow>
               (Json 200 [(''success'', JBool True)],
                Route_save (assign_completed now stopIndex r) st)))"

text \<open>
  \<^verbatim>\<open>GET /api/locations\<close>, lines 237 to 258: \<^verbatim>\<open>$sort\<close> by timestamp, newest first,
  then \<^verbatim>\<open>$group\<close> by \<^verbatim>\<open>driverId\<close> with \<^verbatim>\<open>$first\<close> of each field. The group stage
  reads the documents in the order the sort stage hands them on and opens a group at
  the first document of each key; a missing field reads as null, in the key as well.
\<close>

definition nullish :: "jsval \<Rightarrow> jsval" where
  "nullish v = (if v = JUndefined then JNull else v)"

definition first_of :: "location \<Rightarrow> latest" where
  "first_of d =
     \<lparr>latest_id = nullish (driverId d), latest_lat = nullish (lat d),
      latest_lng = nullish (lng d), latest_timestamp = timestamp d\<rparr>"

fun group_stage :: "latest list \<Rightarrow> location list \<Rightarrow> latest list" where
  "group_stage acc [] = acc"
| "group_stage acc (d # ds) =
     (if nullish (driverId d) \<in> set (map latest_id acc)
      then group_stage acc ds
      else group_stage (acc @ [first_of d]) ds)"

definition aggregate_latest :: "env \<Rightarrow> state \<Rightarrow> latest list" where
  "aggregate_latest e st = group_stage [] (sort_timestamp_desc e (locations st))"

definition api_locations :: "env \<Rightarrow> state \<Rightarrow> response" where
  "api_locations e st = Json_locations (aggregate_latest e st)"

text \<open>
  The variant of \<^verbatim>\<open>README.md\<close>, lines 558 to 609, adds a \<^verbatim>\<open>$match\<close> stage that
  keeps the groups whose coordinates exist and are not null.
\<close>

definition match_stage :: "latest list \<Rightarrow> latest list" where
  "match_stage gs = filter (\<lambda>g. latest_lat g \<noteq> JNull \<and> latest_lng g \<noteq> JNull) gs"

definition api_locations_fixed :: "env \<Rightarrow> state \<Rightarrow> response" where
  "api_locations_fixed e st = Json_locations (match_stage (aggregate_latest e st))"

text \<open>
  What the sort stage guarantees of its output \<open>ys\<close> on the collection \<open>xs\<close>: the same
  documents, no timestamp followed by a later one. MongoDB's sort is not stable, so
  the order of documents with one timestamp is not fixed.
\<close>

definition sort_stage :: "location list \<Rightarrow> location list \<Rightarrow> bool" where
  "sort_stage xs ys = (mset ys = mset xs \<and> sorted_wrt (\<lambda>a b. timestamp b \<le> timestamp a) ys)"

section \<open>Requests and reachable states\<close>

datatype request =
    Connection socket_id
  | Disconnect socket_id
  | Location_update int int socket_id "location_data option"
  | Location_update_validated int int socket_id "location_data option"
  | Stop_completed int socket_id "stop_data option"
  | Post_routes int jsval "nat \<Rightarrow> real" string jsval "string list option"
  | Post_drivers jsval string string
  | Post_complete int jsval jsval
  | Get_locations

fun handle :: "env \<Rightarrow> request \<Rightarrow> state \<Rightarrow> state" where
  "handle e (Connection sid) st = connection sid st"
| "handle e (Disconnect sid) st = disconnect sid st"
| "handle e (Location_update now now' sid data) st = snd (location_update e now now' sid data st)"
| "handle e (Location_update_validated now now' sid data) st =
     snd (location_update_validated e now now' sid data st)"
| "handle e (Stop_completed now sid data) st = snd (stop_completed e now sid data st)"
| "handle e (Post_routes now new_id rnd name i addresses) st =
     snd (post_routes e now new_id rnd name i addresses st)"
| "handle e (Post_drivers new_id name ph) st = snd (post_drivers new_id name ph st)"
| "handle e (Post_complete now routeId stopIndex) st = snd (post_complete e now routeId stopIndex st)"
| "handle e Get_locations st = st"

inductive reachable :: "env \<Rightarrow> state \<Rightarrow> bool" for e :: env where
  reachable_init: "reachable e init"
| reachable_step: "reachable e st \<Longrightarrow> reachable e (handle e rq st)"

section \<open>The latest position in the words of the specification\<close>

text \<open>
  The derived view of the specification, written from its words and not from the code:
  for the key \<open>k\<close>, the report with the greatest timestamp among the reports of the
  collection, read in the order they were stored; of two reports with the same timestamp
  the one stored later wins.
\<close>

definition LatestPosition :: "jsval \<Rightarrow> location list \<Rightarrow> location option" where
  "LatestPosition k ds =
     fold (\<lambda>d best.
             if nullish (driverId d) = k
                \<and> (case best of None \<Rightarrow> True | Some b \<Rightarrow> timestamp b \<le> timestamp d)
             then Some d else best) ds None"

section \<open>Observations and examples\<close>

text \<open>The stop a reader finds under a route id and an index, if there is one.\<close>

definition stored_stop :: "env \<Rightarrow> jsval \<Rightarrow> int \<Rightarrow> state \<Rightarrow> stop option" where
  "stored_stop e routeId i st =
     (case Route_findById e routeId st of
        Inr (Some r) \<Rightarrow> stop_at (stops r) i
      | _ \<Rightarrow> None)"

text \<open>The events delivered between a state and a later one.\<close>

definition new_deliveries :: "state \<Rightarrow> state \<Rightarrow> (socket_id \<times> event) list" where
  "new_deliveries st st' = drop (length (delivered st)) (delivered st')"

definition stop_inv :: "stop \<Rightarrow> bool" where
  "stop_inv s = ((completedAt s \<noteq> None) = (status s = Completed))"

definition stops_inv :: "state \<Rightarrow> bool" where
  "stops_inv st = list_all (\<lambda>r. list_all stop_inv (stops r)) (routes st)"

text \<open>
  The environment the examples run in. An id is cast to itself when it is a string of
  24 characters, undefined or null; a coordinate is cast to itself unless it is NaN or
  a string; the sort stage is the stable insertion sort; the array methods it knows
  are \<^verbatim>\<open>push\<close>, \<^verbatim>\<open>pop\<close> and \<^verbatim>\<open>map\<close>. The examples carry no string coordinate and
  no numeric id, so its string conversions are never consulted.
\<close>

fun example_castObjectId :: "jsval \<Rightarrow> jsval option" where
  "example_castObjectId (JStr s) = (if length s = 24 then Some (JStr s) else None)"
| "example_castObjectId JUndefined = Some JUndefined"
| "example_castObjectId JNull = Some JNull"
| "example_castObjectId v = None"

fun example_castNumber :: "jsval \<Rightarrow> jsval option" where
  "example_castNumber (JNum n) = (if n = NaN then None else Some (JNum n))"
| "example_castNumber (JStr s) = None"
| "example_castNumber (JBool b) = Some (JNum (Fin (if b then 1 else 0)))"
| "example_castNumber v = Some v"

definition example_env :: env where
  "example_env =
     \<lparr>StringToNumber = (\<lambda>s. NaN), parseFloat_str = (\<lambda>s. NaN), NumberToString = (\<lambda>n. []),
      castObjectId = example_castObjectId, castNumber = example_castNumber,
      sort_timestamp_desc = sort_key (\<lambda>d. - timestamp d),
      array_property = (\<lambda>s. s = ''push'' \<or> s = ''pop'' \<or> s = ''map'')\<rparr>"

definition driver1 :: jsval where
  "driver1 = JStr ''64b000000000000000000001''"

definition driver2 :: jsval where
  "driver2 = JStr ''64b000000000000000000002''"

definition route1 :: jsval where
  "route1 = JStr ''64c000000000000000000001''"

definition route9 :: jsval where
  "route9 = JStr ''64c000000000000000000009''"

text \<open>
  Two dispatchers and a driver's client are connected, driver \<open>driver1\<close> exists and has
  the route \<open>route1\<close> of two stops.
\<close>

definition example_state :: state where
  "example_state =
     handle example_env (Post_routes 10 route1 (\<lambda>n. 0.5) ''R1'' driver1 (Some [''1 Main St'', ''2 High St'']))
       (handle example_env (Post_drivers driver1 ''A1'' ''555'')
          (handle example_env (Connection ''O2'')
             (handle example_env (Connection ''O1'')
                (handle example_env (Connection ''A1'') init))))"

definition report :: "jsval \<Rightarrow> real \<Rightarrow> real \<Rightarrow> location_data option" where
  "report i la lo = Some \<lparr>data_driverId = i, data_lat = JNum (Fin la), data_lng = JNum (Fin lo)\<rparr>"


text \<open>
  Three reports of two drivers, and two reports of one driver that arrive within one
  millisecond.
\<close>

definition three_reports :: state where
  "three_reports =
     handle example_env (Location_update 25 26 ''A1'' (report driver1 10.5 20.5))
       (handle example_env (Location_update 22 23 ''A2'' (report driver2 (- 1.2) 36.7))
          (handle example_env (Location_update 20 21 ''A1'' (report driver1 10 20)) example_state))"

definition same_millisecond :: state where
  "same_millisecond =
     handle example_env (Location_update 20 21 ''A1'' (report driver1 10.5 20.5))
       (handle example_env (Location_update 20 21 ''A1'' (report driver1 10 20)) example_state)"

section \<open>Evaluating the examples\<close>

lemmas example_defs = init_def connection_def disconnect_def post_drivers_def post_routes_def
  post_complete_def stop_completed_def location_update_def location_update_validated_def
  Location_save_def Driver_findByIdAndUpdate_def Route_findById_def Route_save_def
  mark_completed_def stop_at_def broadcast_emit_def mock_stop_def example_env_def
  driver1_def driver2_def route1_def route9_def report_def isNaN_def
  Location_save_required_def stops_member_def assign_completed_def canonical_decimal_def
  digit_value_def

lemma example_state_eq:
  "example_state =
    \<lparr>drivers =
      [\<lparr>driver_id = driver1, driver_name = ''A1'', phone = ''555'', isActive = False,
        currentRoute = route1\<rparr>],
     routes =
      [\<lparr>route_id = route1, route_name = ''R1'', driver = driver1,
        stops =
          [\<lparr>address = ''1 Main St'', stop_lat = 40.7128, stop_lng = - 74.0060,
            sequenceOrder = 0, status = Pending, completedAt = None\<rparr>,
           \<lparr>address = ''2 High St'', stop_lat = 40.7128, stop_lng = - 74.0060,
            sequenceOrder = 1, status = Pending, completedAt = None\<rparr>],
        route_status = Route_pending, createdAt = 10,
        totalDistance = ''25.4 miles'', estimatedTime = ''2h 15m''\<rparr>],
     locations = [], sockets = [''A1'', ''O1'', ''O2''], delivered = []\<rparr>"
  by (simp add: example_state_def example_defs)

subsection \<open>Updating the first match\<close>

lemma length_update_first [simp]: "length (update_first P f xs) = length xs"
  by (induction xs) auto

lemma find_update_first:
  "find P xs = Some x \<Longrightarrow> P (f x) \<Longrightarrow> find P (update_first P f xs) = Some (f x)"
  by (induction xs) (auto split: if_splits)

lemma find_update_first_other:
  "(\<And>x. P x \<Longrightarrow> \<not> Q x) \<Longrightarrow> (\<And>x. P x \<Longrightarrow> \<not> Q (f x)) \<Longrightarrow> find Q (update_first P f xs) = find Q xs"
  by (induction xs) auto

lemma find_Some_P: "find P xs = Some x \<Longrightarrow> P x \<and> x \<in> set xs"
  by (induction xs) (auto split: if_splits)

lemma list_all_update_first:
  "list_all Q xs \<Longrightarrow> (\<And>x. x \<in> set xs \<Longrightarrow> P x \<Longrightarrow> Q (f x)) \<Longrightarrow> list_all Q (update_first P f xs)"
  by (induction xs) auto

subsection \<open>What a completed handler did\<close>

lemma location_update_Done:
  "location_update e now now' sid (Some d) st = (Done, st') \<Longrightarrow>
   \<exists>i. castObjectId e (data_driverId d) = Some i \<and>
       drivers st' = update_first (\<lambda>x. driver_id x = i) (\<lambda>x. x\<lparr>isActive := True\<rparr>) (drivers st)"
  by (auto simp: location_update_def Location_save_def Driver_findByIdAndUpdate_def
      broadcast_emit_def split: option.splits sum.splits prod.splits)

lemma location_update_validated_Done:
  "location_update_validated e now now' sid (Some d) st = (Done, st') \<Longrightarrow>
   \<exists>i. castObjectId e (data_driverId d) = Some i \<and>
       drivers st' = update_first (\<lambda>x. driver_id x = i) (\<lambda>x. x\<lparr>isActive := True\<rparr>) (drivers st)"
  by (auto simp: location_update_validated_def Location_save_required_def
      Driver_findByIdAndUpdate_def broadcast_emit_def
      split: option.splits sum.splits prod.splits if_splits)

lemma location_update_Done_deliveries:
  "location_update e now now' sid (Some d) st = (Done, st') \<Longrightarrow>
   new_deliveries st st' =
     map (\<lambda>c. (c, Driver_location (data_driverId d) (data_lat d) (data_lng d) now'))
       (filter (\<lambda>c. c \<noteq> sid) (sockets st))"
  by (auto simp: location_update_def Location_save_def Driver_findByIdAndUpdate_def
      new_deliveries_def broadcast_emit_def split: option.splits sum.splits prod.splits)

lemma location_update_validated_Done_deliveries:
  "location_update_validated e now now' sid (Some d) st = (Done, st') \<Longrightarrow>
   new_deliveries st st' =
     map (\<lambda>c. (c, Driver_location (data_driverId d) (JNum (parseFloat e (data_lat d)))
                  (JNum (parseFloat e (data_lng d))) now'))
       (filter (\<lambda>c. c \<noteq> sid) (sockets st))"
  by (auto simp: location_update_validated_def Location_save_required_def
      Driver_findByIdAndUpdate_def new_deliveries_def broadcast_emit_def
      split: option.splits sum.splits prod.splits if_splits)

lemma stop_completed_Done_deliveries:
  "stop_completed e now sid (Some d) st = (Done, st') \<Longrightarrow>
   new_deliveries st st' =
     map (\<lambda>c. (c, Stop_update (data_routeId d) (data_stopIndex d)))
       (filter (\<lambda>c. c \<noteq> sid) (sockets st))"
  by (auto simp: stop_completed_def Route_save_def
      new_deliveries_def broadcast_emit_def
      split: option.splits sum.splits prod.splits member.splits)

section \<open>Position ingestion\<close>

text \<open>
  Claim C9. The validated handler rejects every position event one of whose coordinates is
  falsy, the number 0 included although it lies in both ranges: it returns before the
  report is built, so the state is the one it started from, with no report stored and
  no event delivered.
\<close>

theorem falsy_coordinate_rejected:
  "\<not> truthy (data_lat d) \<or> \<not> truthy (data_lng d) \<Longrightarrow>
   location_update_validated e now now' sid (Some d) st = (Invalid_coordinates, st)"
  by (auto simp: location_update_validated_def)

theorem falsy_coordinate_rejected_witness:
  "\<not> truthy (JNum (Fin 0)) \<and>
   location_update_validated example_env 20 21 ''A1'' (report driver1 0 36.8) example_state
     = (Invalid_coordinates, example_state)"
  using falsy_coordinate_rejected [of "\<lparr>data_driverId = driver1, data_lat = JNum (Fin 0), data_lng = JNum (Fin 36.8)\<rparr>"
      example_env 20 21 "''A1''" example_state]
  by (simp add: report_def)

lemma location_update_runs:
  assumes "castObjectId e (data_driverId d) = Some i"
    and "castNumber e (data_lat d) = Some a" and "castNumber e (data_lng d) = Some b"
  shows "location_update e now now' sid (Some d) st =
           (Done, broadcast_emit sid (Driver_location (data_driverId d) (data_lat d) (data_lng d) now')
              (st\<lparr>locations := locations st @ [\<lparr>driverId = i, lat = a, lng = b, timestamp = now\<rparr>],
                  drivers := update_first (\<lambda>x. driver_id x = i) (\<lambda>x. x\<lparr>isActive := True\<rparr>) (drivers st)\<rparr>))"
  using assms
  by (simp add: location_update_def Location_save_def Driver_findByIdAndUpdate_def)

lemma location_update_validated_runs:
  assumes "truthy (data_lat d)" and "truthy (data_lng d)"
    and "\<not> isNaN e (data_lat d)" and "\<not> isNaN e (data_lng d)"
    and "toString e (data_driverId d) = Inr s" and "s \<noteq> []"
    and "castNumber e (JNum (parseFloat e (data_lat d))) = Some a"
    and "a \<noteq> JUndefined" and "a \<noteq> JNull"
    and "castNumber e (JNum (parseFloat e (data_lng d))) = Some b"
    and "b \<noteq> JUndefined" and "b \<noteq> JNull"
    and "castObjectId e (data_driverId d) = Some i"
  shows "location_update_validated e now now' sid (Some d) st =
           (Done, broadcast_emit sid
              (Driver_location (data_driverId d) (JNum (parseFloat e (data_lat d)))
                 (JNum (parseFloat e (data_lng d))) now')
              (st\<lparr>locations := locations st @ [\<lparr>driverId = JStr s, lat = a, lng = b, timestamp = now\<rparr>],
                  drivers := update_first (\<lambda>x. driver_id x = i) (\<lambda>x. x\<lparr>isActive := True\<rparr>) (drivers st)\<rparr>))"
  using assms
  by (simp add: location_update_validated_def Location_save_required_def Driver_findByIdAndUpdate_def)

text \<open>
  Claim C10. A position report that a handler ingests to its end also changes the Driver
  collection: the driver the report's id finds has \<open>isActive\<close> set. The handler of
  \<^verbatim>\<open>server.js\<close> runs to its end whenever the id and the coordinates pass the casts of
  the schema; the validated handler does whenever the coordinates pass its check, the
  id has a string form that is not empty, the parsed coordinates pass the cast to a
  Number that is present, and the id passes the cast of \<^verbatim>\<open>findByIdAndUpdate\<close>.
\<close>

theorem ingestion_sets_isActive:
  assumes "find (\<lambda>x. driver_id x = i) (drivers st) = Some dr"
    and "castObjectId e (data_driverId d) = Some i"
  shows
    "(castNumber e (data_lat d) = Some a \<and> castNumber e (data_lng d) = Some b \<longrightarrow>
        fst (location_update e now now' sid (Some d) st) = Done
        \<and> find (\<lambda>x. driver_id x = i) (drivers (snd (location_update e now now' sid (Some d) st)))
            = Some (dr\<lparr>isActive := True\<rparr>))
     \<and> (truthy (data_lat d) \<and> truthy (data_lng d)
         \<and> \<not> isNaN e (data_lat d) \<and> \<not> isNaN e (data_lng d)
         \<and> toString e (data_driverId d) = Inr s \<and> s \<noteq> []
         \<and> castNumber e (JNum (parseFloat e (data_lat d))) = Some a
         \<and> a \<noteq> JUndefined \<and> a \<noteq> JNull
         \<and> castNumber e (JNum (parseFloat e (data_lng d))) = Some b
         \<and> b \<noteq> JUndefined \<and> b \<noteq> JNull \<longrightarrow>
        fst (location_update_validated e now now' sid (Some d) st) = Done
        \<and> find (\<lambda>x. driver_id x = i)
             (drivers (snd (location_update_validated e now now' sid (Some d) st)))
            = Some (dr\<lparr>isActive := True\<rparr>))
     \<and> (\<forall>r. (r = location_update e now now' sid (Some d) st
              \<or> r = location_update_validated e now now' sid (Some d) st) \<and> fst r = Done \<longrightarrow>
            find (\<lambda>x. driver_id x = i) (drivers (snd r)) = Some (dr\<lparr>isActive := True\<rparr>))"
proof -
  have set: "find (\<lambda>x. driver_id x = i)
               (update_first (\<lambda>x. driver_id x = i) (\<lambda>x. x\<lparr>isActive := True\<rparr>) (drivers st))
             = Some (dr\<lparr>isActive := True\<rparr>)"
    using find_Some_P [OF assms(1)] by (intro find_update_first [OF assms(1)]) simp
  have one: "fst (location_update e now now' sid (Some d) st) = Done
        \<and> find (\<lambda>x. driver_id x = i) (drivers (snd (location_update e now now' sid (Some d) st)))
            = Some (dr\<lparr>isActive := True\<rparr>)"
    if "castNumber e (data_lat d) = Some a \<and> castNumber e (data_lng d) = Some b"
    using that set by (simp add: location_update_runs [OF assms(2)] broadcast_emit_def)
  have two: "fst (location_update_validated e now now' sid (Some d) st) = Done
        \<and> find (\<lambda>x. driver_id x = i)
             (drivers (snd (location_update_validated e now now' sid (Some d) st)))
            = Some (dr\<lparr>isActive := True\<rparr>)"
    if "truthy (data_lat d) \<and> truthy (data_lng d)
         \<and> \<not> isNaN e (data_lat d) \<and> \<not> isNaN e (data_lng d)
         \<and> toString e (data_driverId d) = Inr s \<and> s \<noteq> []
         \<and> castNumber e (JNum (parseFloat e (data_lat d))) = Some a
         \<and> a \<noteq> JUndefined \<and> a \<noteq> JNull
         \<and> castNumber e (JNum (parseFloat e (data_lng d))) = Some b
         \<and> b \<noteq> JUndefined \<and> b \<noteq> JNull"
    using that set assms(2)
    by (simp add: location_update_validated_runs [where i = i] broadcast_emit_def)
  have three: "find (\<lambda>x. driver_id x = i) (drivers (snd r)) = Some (dr\<lparr>isActive := True\<rparr>)"
    if "(r = location_update e now now' sid (Some d) st
              \<or> r = location_update_validated e now now' sid (Some d) st) \<and> fst r = Done" for r
  proof -
    from that
    have "location_update e now now' sid (Some d) st = (Done, snd r)
        \<or> location_update_validated e now now' sid (Some d) st = (Done, snd r)"
      by (metis prod.collapse)
    with assms(2)
    have "drivers (snd r) = update_first (\<lambda>x. driver_id x = i) (\<lambda>x. x\<lparr>isActive := True\<rparr>) (drivers st)"
      using location_update_Done location_update_validated_Done by fastforce
    with set show ?thesis by simp
  qed
  from one two three show ?thesis by blast
qed

theorem ingestion_sets_isActive_witness:
  "find (\<lambda>x. driver_id x = driver1) (drivers example_state)
       = Some \<lparr>driver_id = driver1, driver_name = ''A1'', phone = ''555'', isActive = False,
               currentRoute = route1\<rparr>
   \<and> castObjectId example_env driver1 = Some driver1
   \<and> castNumber example_env (JNum (Fin (- 1.29))) = Some (JNum (Fin (- 1.29)))
   \<and> castNumber example_env (JNum (Fin 36.8)) = Some (JNum (Fin 36.8))
   \<and> fst (location_update example_env 20 21 ''A1'' (report driver1 (- 1.29) 36.8) example_state) = Done
   \<and> find (\<lambda>x. driver_id x = driver1)
        (drivers (snd (location_update example_env 20 21 ''A1'' (report driver1 (- 1.29) 36.8) example_state)))
       = Some \<lparr>driver_id = driver1, driver_name = ''A1'', phone = ''555'', isActive = True,
               currentRoute = route1\<rparr>
   \<and> fst (location_update_validated example_env 20 21 ''A1'' (report driver1 (- 1.29) 36.8)
             example_state) = Done
   \<and> find (\<lambda>x. driver_id x = driver1)
        (drivers (snd (location_update_validated example_env 20 21 ''A1''
                         (report driver1 (- 1.29) 36.8) example_state)))
       = Some \<lparr>driver_id = driver1, driver_name = ''A1'', phone = ''555'', isActive = True,
               currentRoute = route1\<rparr>"
proof -
  let ?d = "\<lparr>data_driverId = driver1, data_lat = JNum (Fin (- 1.29)), data_lng = JNum (Fin 36.8)\<rparr>"
  let ?dr = "\<lparr>driver_id = driver1, driver_name = ''A1'', phone = ''555'', isActive = False,
               currentRoute = route1\<rparr>"
  have before: "find (\<lambda>x. driver_id x = driver1) (drivers example_state) = Some ?dr"
    by (simp add: example_state_eq)
  have cast: "castObjectId example_env (data_driverId ?d) = Some driver1"
    by (simp add: example_defs)
  have la: "castNumber example_env (JNum (Fin (- 1.29))) = Some (JNum (Fin (- 1.29)))"
    and lo: "castNumber example_env (JNum (Fin 36.8)) = Some (JNum (Fin 36.8))"
    by (simp_all add: example_env_def)
  have guard: "truthy (data_lat ?d) \<and> truthy (data_lng ?d)
         \<and> \<not> isNaN example_env (data_lat ?d) \<and> \<not> isNaN example_env (data_lng ?d)
         \<and> toString example_env (data_driverId ?d) = Inr ''64b000000000000000000001''
         \<and> ''64b000000000000000000001'' \<noteq> []
         \<and> castNumber example_env (JNum (parseFloat example_env (data_lat ?d))) = Some (JNum (Fin (- 1.29)))
         \<and> JNum (Fin (- 1.29)) \<noteq> JUndefined \<and> JNum (Fin (- 1.29)) \<noteq> JNull
         \<and> castNumber example_env (JNum (parseFloat example_env (data_lng ?d))) = Some (JNum (Fin 36.8))
         \<and> JNum (Fin 36.8) \<noteq> JUndefined \<and> JNum (Fin 36.8) \<noteq> JNull"
    by (simp add: isNaN_def example_env_def driver1_def)
  note w = ingestion_sets_isActive [OF before cast, of "JNum (Fin (- 1.29))" "JNum (Fin 36.8)"
      20 21 "''A1''" "''64b000000000000000000001''"]
  from w la lo
  have one: "fst (location_update example_env 20 21 ''A1'' (Some ?d) example_state) = Done
        \<and> find (\<lambda>x. driver_id x = driver1)
             (drivers (snd (location_update example_env 20 21 ''A1'' (Some ?d) example_state)))
            = Some (?dr\<lparr>isActive := True\<rparr>)"
    by simp
  from w guard
  have two: "fst (location_update_validated example_env 20 21 ''A1'' (Some ?d) example_state) = Done
        \<and> find (\<lambda>x. driver_id x = driver1)
             (drivers (snd (location_update_validated example_env 20 21 ''A1'' (Some ?d) example_state)))
            = Some (?dr\<lparr>isActive := True\<rparr>)"
    by blast
  from before cast la lo one two show ?thesis
    by (simp add: report_def)
qed

section \<open>Broadcast\<close>

text \<open>
  Claim C8, as the code has it. Every event a socket handler publishes is delivered to
  every socket connected at that moment except the socket the handler runs on, and to
  no one else: the handlers emit with \<^verbatim>\<open>socket.broadcast.emit\<close>. The counterexample
  is a dispatcher's socket that sends a location update and is not among the receivers.
\<close>

theorem publish_reaches_all_but_sender:
  assumes "r = location_update e now now' sid (Some d) st \<and>
             ev = Driver_location (data_driverId d) (data_lat d) (data_lng d) now'
         \<or> r = location_update_validated e now now' sid (Some d) st \<and>
             ev = Driver_location (data_driverId d) (JNum (parseFloat e (data_lat d)))
                    (JNum (parseFloat e (data_lng d))) now'
         \<or> r = stop_completed e now sid (Some sd) st \<and>
             ev = Stop_update (data_routeId sd) (data_stopIndex sd)"
    and "fst r = Done"
  shows "set (new_deliveries st (snd r)) = {(c, ev) | c. c \<in> set (sockets st) \<and> c \<noteq> sid}"
proof -
  from assms
  have "location_update e now now' sid (Some d) st = (Done, snd r) \<and>
             ev = Driver_location (data_driverId d) (data_lat d) (data_lng d) now'
         \<or> location_update_validated e now now' sid (Some d) st = (Done, snd r) \<and>
             ev = Driver_location (data_driverId d) (JNum (parseFloat e (data_lat d)))
                    (JNum (parseFloat e (data_lng d))) now'
         \<or> stop_completed e now sid (Some sd) st = (Done, snd r) \<and>
             ev = Stop_update (data_routeId sd) (data_stopIndex sd)"
    by (metis prod.collapse)
  then have "new_deliveries st (snd r) = map (\<lambda>c. (c, ev)) (filter (\<lambda>c. c \<noteq> sid) (sockets st))"
    using location_update_Done_deliveries location_update_validated_Done_deliveries
      stop_completed_Done_deliveries by blast
  then show ?thesis by auto
qed

theorem sender_not_reached_counterexample:
  "fst (location_update example_env 20 21 ''O1'' (report driver1 (- 1.29) 36.8) example_state) = Done
   \<and> ''O1'' \<in> set (sockets example_state)
   \<and> new_deliveries example_state
        (snd (location_update example_env 20 21 ''O1'' (report driver1 (- 1.29) 36.8) example_state))
      = [(''A1'', Driver_location driver1 (JNum (Fin (- 1.29))) (JNum (Fin 36.8)) 21),
         (''O2'', Driver_location driver1 (JNum (Fin (- 1.29))) (JNum (Fin 36.8)) 21)]"
  by (simp add: example_state_eq example_defs new_deliveries_def)

theorem publish_reaches_all_but_sender_witness:
  "fst (stop_completed example_env 30 ''A1'' (Some \<lparr>data_routeId = route1, data_stopIndex = JNum (Fin 0)\<rparr>) example_state) = Done
   \<and> set (new_deliveries example_state
        (snd (stop_completed example_env 30 ''A1'' (Some \<lparr>data_routeId = route1, data_stopIndex = JNum (Fin 0)\<rparr>) example_state)))
      = {(''O1'', Stop_update route1 (JNum (Fin 0))), (''O2'', Stop_update route1 (JNum (Fin 0)))}"
proof -
  let ?sd = "\<lparr>data_routeId = route1, data_stopIndex = JNum (Fin 0)\<rparr>"
  let ?r = "stop_completed example_env 30 ''A1'' (Some ?sd) example_state"
  have ok: "fst ?r = Done"
    by (simp add: example_state_eq example_defs)
  have socks: "sockets example_state = [''A1'', ''O1'', ''O2'']"
    by (simp add: example_state_eq)
  have "set (new_deliveries example_state (snd ?r))
        = {(c, Stop_update (data_routeId ?sd) (data_stopIndex ?sd)) | c. c \<in> set (sockets example_state) \<and> c \<noteq> ''A1''}"
    by (rule publish_reaches_all_but_sender [OF disjI2 [OF disjI2 [OF conjI [OF refl refl]]] ok])
  also have "\<dots> = {(''O1'', Stop_update route1 (JNum (Fin 0))), (''O2'', Stop_update route1 (JNum (Fin 0)))}"
    unfolding socks by auto
  finally show ?thesis using ok by simp
qed

section \<open>Stop completion\<close>

subsection \<open>Completing a stop\<close>

lemma Route_findById_route_id:
  "Route_findById e rid st = Inr (Some r) \<Longrightarrow> castObjectId e rid = Some (route_id r)"
  by (auto simp: Route_findById_def split: option.splits dest: find_Some_P)

lemma route_id_mark_completed [simp]: "route_id (mark_completed now i r) = route_id r"
  by (simp add: mark_completed_def)

lemma Route_findById_Route_save:
  assumes "Route_findById e rid st = Inr (Some r)" and "route_id r' = route_id r"
  shows "Route_findById e rid (Route_save r' st) = Inr (Some r')"
proof -
  from assms(1) obtain k where k: "castObjectId e rid = Some k"
    and f: "find (\<lambda>x. route_id x = k) (routes st) = Some r"
    by (auto simp: Route_findById_def split: option.splits)
  from f have "route_id r = k" by (auto dest: find_Some_P)
  with assms(2) f have "find (\<lambda>x. route_id x = k) (update_first (\<lambda>x. route_id x = k) (\<lambda>_. r') (routes st)) = Some r'"
    by (intro find_update_first) auto
  with k \<open>route_id r = k\<close> assms(2) show ?thesis
    by (simp add: Route_findById_def Route_save_def)
qed

lemma Route_findById_Route_save_other:
  assumes "castObjectId e k \<noteq> Some (route_id r')"
  shows "Route_findById e k (Route_save r' st) = Route_findById e k st"
proof (cases "castObjectId e k")
  case None
  then show ?thesis by (simp add: Route_findById_def)
next
  case (Some j)
  with assms have "j \<noteq> route_id r'" by simp
  then have "find (\<lambda>x. route_id x = j) (update_first (\<lambda>x. route_id x = route_id r') (\<lambda>_. r') (routes st))
             = find (\<lambda>x. route_id x = j) (routes st)"
    by (intro find_update_first_other) auto
  with Some show ?thesis by (simp add: Route_findById_def Route_save_def)
qed

lemma mark_completed_eq:
  "stop_at (stops r) i = Some s \<Longrightarrow>
   mark_completed now i r = r\<lparr>stops := (stops r)[nat i := s\<lparr>status := Completed, completedAt := Some now\<rparr>]\<rparr>"
  by (auto simp: mark_completed_def stop_at_def split: if_splits)

lemma stop_at_list_update:
  "stop_at ss i = Some s \<Longrightarrow> stop_at (ss[nat i := s']) j = (if j = i then Some s' else stop_at ss j)"
  by (auto simp: stop_at_def nth_list_update split: if_splits)

lemma stops_member_Element:
  "integer_of_key k = Some i \<Longrightarrow> stop_at ss i = Some s \<Longrightarrow> stops_member e ss k = Element s"
  by (simp add: stops_member_def)

lemma stops_member_out_of_range:
  "integer_of_key k = Some i \<Longrightarrow> i < 0 \<or> int (length ss) \<le> i \<Longrightarrow> stops_member e ss k = Absent"
  by (auto simp: stops_member_def stop_at_def)

lemma post_complete_found:
  assumes "Route_findById e rid st = Inr (Some r)"
    and "integer_of_key k = Some i" and "stop_at (stops r) i = Some s"
  shows "post_complete e now rid k st =
           (Json 200 [(''success'', JBool True)], Route_save (mark_completed now i r) st)"
  using assms by (simp add: post_complete_def stops_member_Element assign_completed_def)

lemma stop_completed_found:
  assumes "Route_findById e rid st = Inr (Some r)"
    and "integer_of_key k = Some i" and "stop_at (stops r) i = Some s"
  shows "stop_completed e now sid (Some \<lparr>data_routeId = rid, data_stopIndex = k\<rparr>) st =
           (Done, broadcast_emit sid (Stop_update rid k) (Route_save (mark_completed now i r) st))"
  using assms by (simp add: stop_completed_def stops_member_Element assign_completed_def)

lemma Route_findById_broadcast_emit [simp]:
  "Route_findById e k (broadcast_emit sid ev st) = Route_findById e k st"
  by (simp add: Route_findById_def broadcast_emit_def split: option.splits)

lemma stored_stop_broadcast_emit [simp]:
  "stored_stop e k j (broadcast_emit sid ev st) = stored_stop e k j st"
  by (simp add: stored_stop_def)

lemma stored_stop_completed:
  assumes "Route_findById e rid st = Inr (Some r)" and "stop_at (stops r) i = Some s"
  shows "stored_stop e rid j (Route_save (mark_completed now i r) st) =
           (if j = i then Some (s\<lparr>status := Completed, completedAt := Some now\<rparr>)
            else stored_stop e rid j st)"
proof -
  have "Route_findById e rid (Route_save (mark_completed now i r) st)
          = Inr (Some (mark_completed now i r))"
    using assms(1) by (rule Route_findById_Route_save) simp
  then show ?thesis
    using assms by (simp add: stored_stop_def mark_completed_eq stop_at_list_update)
qed

lemma completion_effect:
  assumes "Route_findById e routeId st = Inr (Some r)"
    and "integer_of_key k = Some i"
    and "stop_at (stops r) i = Some s"
    and "st' = snd (post_complete e now routeId k st)
         \<or> st' = snd (stop_completed e now sid (Some \<lparr>data_routeId = routeId, data_stopIndex = k\<rparr>) st)"
  shows "Route_findById e routeId st' =
           Inr (Some (r\<lparr>stops := (stops r)[nat i := s\<lparr>status := Completed, completedAt := Some now\<rparr>]\<rparr>))"
    and "stored_stop e routeId j st' =
           (if j = i then Some (s\<lparr>status := Completed, completedAt := Some now\<rparr>)
            else stored_stop e routeId j st)"
    and "castObjectId e rid \<noteq> castObjectId e routeId \<Longrightarrow> Route_findById e rid st' = Route_findById e rid st"
    and "length (routes st') = length (routes st)"
    and "drivers st' = drivers st" and "locations st' = locations st"
proof -
  let ?r' = "mark_completed now i r"
  let ?ev = "Stop_update routeId k"
  have cases: "st' = Route_save ?r' st \<or> st' = broadcast_emit sid ?ev (Route_save ?r' st)"
    using assms(4) post_complete_found [OF assms(1,2,3)] stop_completed_found [OF assms(1,2,3)]
    by auto
  have "Route_findById e routeId (Route_save ?r' st) = Inr (Some ?r')"
    using assms(1) by (rule Route_findById_Route_save) simp
  with cases show "Route_findById e routeId st' =
           Inr (Some (r\<lparr>stops := (stops r)[nat i := s\<lparr>status := Completed, completedAt := Some now\<rparr>]\<rparr>))"
    by (auto simp: mark_completed_eq [OF assms(3)])
  show "stored_stop e routeId j st' =
           (if j = i then Some (s\<lparr>status := Completed, completedAt := Some now\<rparr>)
            else stored_stop e routeId j st)"
    using cases stored_stop_completed [OF assms(1,3)] by auto
  show "Route_findById e rid st' = Route_findById e rid st"
    if "castObjectId e rid \<noteq> castObjectId e routeId"
  proof -
    from that have "castObjectId e rid \<noteq> Some (route_id ?r')"
      using Route_findById_route_id [OF assms(1)] by simp
    then have "Route_findById e rid (Route_save ?r' st) = Route_findById e rid st"
      by (rule Route_findById_Route_save_other)
    with cases show ?thesis by auto
  qed
  show "length (routes st') = length (routes st)"
    using cases by (auto simp: Route_save_def broadcast_emit_def)
  show "drivers st' = drivers st"
    using cases by (auto simp: Route_save_def broadcast_emit_def)
  show "locations st' = locations st"
    using cases by (auto simp: Route_save_def broadcast_emit_def)
qed


text \<open>
  Claim C6, as the code has it. For a route that is found and a stop index that names an
  integer in range whose stop is pending, either completion handler sets the status of
  exactly that stop to completed and its \<open>completedAt\<close> to the server's clock \<open>now\<close>
  (the request carries no timestamp); the HTTP handler answers \<^verbatim>\<open>{success: true}\<close>
  and the socket handler runs to its end. The route read back is the old one with that
  one entry of its stop list replaced, so every other stop, the order of the stops and
  the other fields of the route are as before, as are the other routes, the drivers and
  the locations. The counterexample: two completions of different stops at different
  times get the same response, which therefore is not the updated stop, and the same
  request handled at another time stores another \<open>completedAt\<close>.
\<close>

theorem completing_a_pending_stop:
  assumes "Route_findById e routeId st = Inr (Some r)"
    and "integer_of_key k = Some i"
    and "stop_at (stops r) i = Some s"
    and "status s = Pending"
    and "st' = snd (post_complete e now routeId k st)
         \<or> st' = snd (stop_completed e now sid (Some \<lparr>data_routeId = routeId, data_stopIndex = k\<rparr>) st)"
  shows "fst (post_complete e now routeId k st) = Json 200 [(''success'', JBool True)]
    \<and> fst (stop_completed e now sid (Some \<lparr>data_routeId = routeId, data_stopIndex = k\<rparr>) st) = Done
    \<and> Route_findById e routeId st' =
           Inr (Some (r\<lparr>stops := (stops r)[nat i := s\<lparr>status := Completed, completedAt := Some now\<rparr>]\<rparr>))
    \<and> stored_stop e routeId i st' = Some (s\<lparr>status := Completed, completedAt := Some now\<rparr>)
    \<and> (\<forall>j. j \<noteq> i \<longrightarrow> stored_stop e routeId j st' = stored_stop e routeId j st)
    \<and> (\<forall>rid. castObjectId e rid \<noteq> castObjectId e routeId \<longrightarrow>
           Route_findById e rid st' = Route_findById e rid st)
    \<and> length (routes st') = length (routes st)
    \<and> drivers st' = drivers st \<and> locations st' = locations st"
  using completion_effect [OF assms(1,2,3,5)]
    post_complete_found [OF assms(1,2,3)] stop_completed_found [OF assms(1,2,3)]
  by simp

theorem completing_a_pending_stop_witness:
  "Route_findById example_env route1 example_state = Inr (Some (hd (routes example_state)))
   \<and> integer_of_key (JStr ''0'') = Some 0
   \<and> stop_at (stops (hd (routes example_state))) 0 =
       Some \<lparr>address = ''1 Main St'', stop_lat = 40.7128, stop_lng = - 74.0060,
            sequenceOrder = 0, status = Pending, completedAt = None\<rparr>
   \<and> fst (post_complete example_env 100 route1 (JStr ''0'') example_state)
       = Json 200 [(''success'', JBool True)]
   \<and> stored_stop example_env route1 0 (snd (post_complete example_env 100 route1 (JStr ''0'') example_state)) =
       Some \<lparr>address = ''1 Main St'', stop_lat = 40.7128, stop_lng = - 74.0060,
            sequenceOrder = 0, status = Completed, completedAt = Some 100\<rparr>
   \<and> stored_stop example_env route1 1 (snd (post_complete example_env 100 route1 (JStr ''0'') example_state)) =
       stored_stop example_env route1 1 example_state"
proof -
  let ?s = "\<lparr>address = ''1 Main St'', stop_lat = 40.7128, stop_lng = - 74.0060,
            sequenceOrder = 0, status = Pending, completedAt = None\<rparr>"
  have found: "Route_findById example_env route1 example_state = Inr (Some (hd (routes example_state)))"
    by (simp add: example_state_eq Route_findById_def example_env_def route1_def)
  have key: "integer_of_key (JStr ''0'') = Some 0"
    by (simp add: canonical_decimal_def digit_value_def)
  have at: "stop_at (stops (hd (routes example_state))) 0 = Some ?s"
    by (simp add: example_state_eq stop_at_def)
  have pending: "status ?s = Pending" by simp
  from completing_a_pending_stop [OF found key at pending disjI1 [OF refl], of 100 "''A1''"] found key at
  show ?thesis by simp
qed

theorem response_is_not_the_stop_counterexample:
  "fst (post_complete example_env 100 route1 (JStr ''0'') example_state)
     = fst (post_complete example_env 200 route1 (JStr ''1'') example_state)
   \<and> fst (post_complete example_env 100 route1 (JStr ''0'') example_state)
       = Json 200 [(''success'', JBool True)]
   \<and> stored_stop example_env route1 0 (snd (post_complete example_env 100 route1 (JStr ''0'') example_state))
     \<noteq> stored_stop example_env route1 1 (snd (post_complete example_env 200 route1 (JStr ''1'') example_state))
   \<and> map_option completedAt
       (stored_stop example_env route1 0 (snd (post_complete example_env 100 route1 (JStr ''0'') example_state)))
     \<noteq> map_option completedAt
       (stored_stop example_env route1 0 (snd (post_complete example_env 200 route1 (JStr ''0'') example_state)))"
  by (simp add: example_state_eq example_defs stored_stop_def)




text \<open>
  Claim C4, as the code has it. When the route id casts to an id that no route has, or
  the route is found and the stop index names an integer outside \<open>[0, length)\<close>, the
  HTTP handler answers with one and the same 404 \<^verbatim>\<open>Route or stop not found\<close> and the
  socket handler does nothing; when the id cannot be cast, the HTTP handler answers
  500 and the socket handler catches the error. In each case the state is the one
  before: no route or stop is modified and nothing is published. The counterexample
  shows the same response for an unknown route and for an index out of range. A stop
  index that names no integer is outside the statement.
\<close>

theorem completion_failures:
  "(castObjectId e routeId = None \<longrightarrow>
      post_complete e now routeId k st = (Json 500 [(''error'', JStr ''Server Error'')], st)
      \<and> stop_completed e now sid (Some \<lparr>data_routeId = routeId, data_stopIndex = k\<rparr>) st
          = (Caught CastError, st))
   \<and> (castObjectId e routeId = Some rid \<and>
        ((\<forall>r \<in> set (routes st). route_id r \<noteq> rid)
         \<or> (\<exists>r i. find (\<lambda>r. route_id r = rid) (routes st) = Some r
                \<and> integer_of_key k = Some i
                \<and> (i < 0 \<or> int (length (stops r)) \<le> i))) \<longrightarrow>
      post_complete e now routeId k st
          = (Json 404 [(''error'', JStr ''Route or stop not found'')], st)
      \<and> stop_completed e now sid (Some \<lparr>data_routeId = routeId, data_stopIndex = k\<rparr>) st
          = (Not_found, st))"
proof (intro conjI impI)
  assume "castObjectId e routeId = None"
  then have f: "Route_findById e routeId st = Inl CastError"
    by (simp add: Route_findById_def)
  show "post_complete e now routeId k st = (Json 500 [(''error'', JStr ''Server Error'')], st)"
    by (simp add: post_complete_def f)
  show "stop_completed e now sid (Some \<lparr>data_routeId = routeId, data_stopIndex = k\<rparr>) st
          = (Caught CastError, st)"
    by (simp add: stop_completed_def f)
next
  assume a: "castObjectId e routeId = Some rid \<and>
        ((\<forall>r \<in> set (routes st). route_id r \<noteq> rid)
         \<or> (\<exists>r i. find (\<lambda>r. route_id r = rid) (routes st) = Some r
                \<and> integer_of_key k = Some i
                \<and> (i < 0 \<or> int (length (stops r)) \<le> i)))"
  then consider (unknown) "Route_findById e routeId st = Inr None"
    | (range) r where "Route_findById e routeId st = Inr (Some r)"
        "stops_member e (stops r) k = Absent"
    by (auto simp: Route_findById_def find_None_iff stops_member_out_of_range)
  then have "post_complete e now routeId k st
          = (Json 404 [(''error'', JStr ''Route or stop not found'')], st)
      \<and> stop_completed e now sid (Some \<lparr>data_routeId = routeId, data_stopIndex = k\<rparr>) st
          = (Not_found, st)"
    by cases (simp_all add: post_complete_def stop_completed_def)
  then show "post_complete e now routeId k st
          = (Json 404 [(''error'', JStr ''Route or stop not found'')], st)"
    and "stop_completed e now sid (Some \<lparr>data_routeId = routeId, data_stopIndex = k\<rparr>) st
          = (Not_found, st)"
    by simp_all
qed

theorem one_error_for_both_counterexample:
  "castObjectId example_env route9 = Some route9
   \<and> route9 \<notin> route_id ` set (routes example_state)
   \<and> fst (post_complete example_env 100 route9 (JStr ''0'') example_state)
       = Json 404 [(''error'', JStr ''Route or stop not found'')]
   \<and> map (length \<circ> stops) (routes example_state) = [2]
   \<and> integer_of_key (JStr ''2'') = Some 2
   \<and> fst (post_complete example_env 100 route1 (JStr ''2'') example_state)
       = Json 404 [(''error'', JStr ''Route or stop not found'')]
   \<and> fst (post_complete example_env 100 (JStr ''R1'') (JStr ''0'') example_state)
       = Json 500 [(''error'', JStr ''Server Error'')]"
  by (simp add: example_state_eq example_defs)

theorem completion_failures_witness:
  "castObjectId example_env route1 = Some route1
   \<and> find (\<lambda>r. route_id r = route1) (routes example_state) = Some (hd (routes example_state))
   \<and> integer_of_key (JStr ''2'') = Some 2
   \<and> integer_of_key (JStr ''-1'') = Some (- 1)
   \<and> int (length (stops (hd (routes example_state)))) \<le> 2
   \<and> post_complete example_env 100 route1 (JStr ''2'') example_state
       = (Json 404 [(''error'', JStr ''Route or stop not found'')], example_state)
   \<and> post_complete example_env 100 route1 (JStr ''-1'') example_state
       = (Json 404 [(''error'', JStr ''Route or stop not found'')], example_state)
   \<and> stop_completed example_env 100 ''A1'' (Some \<lparr>data_routeId = route1, data_stopIndex = JNum (Fin 2)\<rparr>)
        example_state
       = (Not_found, example_state)"
proof -
  have c: "castObjectId example_env route1 = Some route1"
    by (simp add: example_env_def route1_def)
  have f: "find (\<lambda>r. route_id r = route1) (routes example_state) = Some (hd (routes example_state))"
    by (simp add: example_state_eq)
  have l: "int (length (stops (hd (routes example_state)))) \<le> 2"
    by (simp add: example_state_eq)
  have k2: "integer_of_key (JStr ''2'') = Some 2"
    and k1: "integer_of_key (JStr ''-1'') = Some (- 1)"
    and k3: "integer_of_key (JNum (Fin 2)) = Some 2"
    by (simp_all add: canonical_decimal_def digit_value_def)
  from f k2 l have h2: "\<exists>r i. find (\<lambda>r. route_id r = route1) (routes example_state) = Some r
                \<and> integer_of_key (JStr ''2'') = Some i \<and> (i < 0 \<or> int (length (stops r)) \<le> i)"
    by blast
  from f k1 have h1: "\<exists>r i. find (\<lambda>r. route_id r = route1) (routes example_state) = Some r
                \<and> integer_of_key (JStr ''-1'') = Some i \<and> (i < 0 \<or> int (length (stops r)) \<le> i)"
    by fastforce
  from f k3 l have h3: "\<exists>r i. find (\<lambda>r. route_id r = route1) (routes example_state) = Some r
                \<and> integer_of_key (JNum (Fin 2)) = Some i \<and> (i < 0 \<or> int (length (stops r)) \<le> i)"
    by blast
  from completion_failures [of example_env route1 100 "JStr ''2''" example_state "''A1''" route1] c h2
  have a: "post_complete example_env 100 route1 (JStr ''2'') example_state
       = (Json 404 [(''error'', JStr ''Route or stop not found'')], example_state)"
    by blast
  from completion_failures [of example_env route1 100 "JStr ''-1''" example_state "''A1''" route1] c h1
  have b: "post_complete example_env 100 route1 (JStr ''-1'') example_state
       = (Json 404 [(''error'', JStr ''Route or stop not found'')], example_state)"
    by blast
  from completion_failures [of example_env route1 100 "JNum (Fin 2)" example_state "''A1''" route1] c h3
  have d: "stop_completed example_env 100 ''A1'' (Some \<lparr>data_routeId = route1, data_stopIndex = JNum (Fin 2)\<rparr>)
        example_state = (Not_found, example_state)"
    by blast
  from c f k2 k1 l a b d show ?thesis by blast
qed

text \<open>
  A stop index that names no integer but a truthy property of the array takes the
  success branch of both handlers, and the two assignments change nothing: with
  \<^verbatim>\<open>length\<close> on the route of two stops the HTTP handler answers
  \<^verbatim>\<open>{success: true}\<close>, the socket handler publishes a stop update, and the routes are
  as before.
\<close>

lemma length_is_no_stop:
  "post_complete example_env 100 route1 (JStr ''length'') example_state
     = (Json 200 [(''success'', JBool True)], example_state)
   \<and> fst (stop_completed example_env 100 ''A1''
             (Some \<lparr>data_routeId = route1, data_stopIndex = JStr ''length''\<rparr>) example_state) = Done
   \<and> routes (snd (stop_completed example_env 100 ''A1''
             (Some \<lparr>data_routeId = route1, data_stopIndex = JStr ''length''\<rparr>) example_state))
       = routes example_state
   \<and> new_deliveries example_state
        (snd (stop_completed example_env 100 ''A1''
             (Some \<lparr>data_routeId = route1, data_stopIndex = JStr ''length''\<rparr>) example_state))
       = [(''O1'', Stop_update route1 (JStr ''length'')), (''O2'', Stop_update route1 (JStr ''length''))]"
  by (simp add: example_state_eq example_defs new_deliveries_def)

section \<open>The invariant of a stop\<close>

subsection \<open>Handlers that leave the routes alone\<close>

lemma routes_location_update [simp]:
  "routes (snd (location_update e now now' sid data st)) = routes st"
  by (auto simp: location_update_def Location_save_def Driver_findByIdAndUpdate_def
      broadcast_emit_def split: option.splits sum.splits)

lemma routes_location_update_validated [simp]:
  "routes (snd (location_update_validated e now now' sid data st)) = routes st"
  by (auto simp: location_update_validated_def Location_save_required_def
      Driver_findByIdAndUpdate_def broadcast_emit_def
      split: option.splits sum.splits if_splits)

subsection \<open>The stop invariant\<close>

lemma stop_inv_mock_stop [simp]: "stop_inv (mock_stop rnd index a)"
  by (simp add: stop_inv_def mock_stop_def)

lemma stops_inv_mark_completed:
  assumes "list_all stop_inv (stops r)"
  shows "list_all stop_inv (stops (mark_completed now i r))"
proof -
  have "stop_inv (((stops r) ! nat i)\<lparr>status := Completed\<rparr>\<lparr>completedAt := Some now\<rparr>)"
    by (simp add: stop_inv_def)
  with assms show ?thesis
    unfolding mark_completed_def list_all_iff
    using set_update_subset_insert [of "stops r" "nat i"] by fastforce
qed

lemma stops_inv_assign_completed:
  "list_all stop_inv (stops r) \<Longrightarrow> list_all stop_inv (stops (assign_completed now k r))"
  by (simp add: assign_completed_def stops_inv_mark_completed split: option.splits)

lemma stops_inv_Route_save:
  assumes "stops_inv st" and "list_all stop_inv (stops r)"
  shows "stops_inv (Route_save r st)"
  using assms unfolding stops_inv_def Route_save_def
  by (simp add: list_all_update_first)

lemma stops_inv_post_complete:
  assumes "stops_inv st"
  shows "stops_inv (snd (post_complete e now routeId i st))"
proof (cases "Route_findById e routeId st")
  case (Inl err)
  with assms show ?thesis by (simp add: post_complete_def)
next
  case (Inr ro)
  show ?thesis
  proof (cases ro)
    case None
    with Inr assms show ?thesis by (simp add: post_complete_def)
  next
    case (Some r)
    with Inr have "r \<in> set (routes st)"
      by (auto simp: Route_findById_def split: option.splits dest: find_Some_P)
    with assms have "list_all stop_inv (stops r)"
      by (simp add: stops_inv_def list_all_iff)
    then have "stops_inv (Route_save (assign_completed now i r) st)"
      using assms by (intro stops_inv_Route_save stops_inv_assign_completed)
    with Inr Some assms show ?thesis
      by (simp add: post_complete_def split: member.splits)
  qed
qed

lemma stops_inv_stop_completed:
  assumes "stops_inv st"
  shows "stops_inv (snd (stop_completed e now sid data st))"
proof (cases data)
  case None
  with assms show ?thesis by (simp add: stop_completed_def)
next
  case (Some d)
  show ?thesis
  proof (cases "Route_findById e (data_routeId d) st")
    case (Inl err)
    with Some assms show ?thesis by (simp add: stop_completed_def)
  next
    case (Inr ro)
    show ?thesis
    proof (cases ro)
      case None
      with Some Inr assms show ?thesis by (simp add: stop_completed_def)
    next
      case r: (Some r)
      with Inr have "r \<in> set (routes st)"
        by (auto simp: Route_findById_def split: option.splits dest: find_Some_P)
      with assms have "list_all stop_inv (stops r)"
        by (simp add: stops_inv_def list_all_iff)
      then have "stops_inv (Route_save (assign_completed now (data_stopIndex d) r) st)"
        using assms by (intro stops_inv_Route_save stops_inv_assign_completed)
      then have "stops_inv (broadcast_emit sid (Stop_update (data_routeId d) (data_stopIndex d))
           (Route_save (assign_completed now (data_stopIndex d) r) st))"
        by (simp add: stops_inv_def broadcast_emit_def)
      with Some Inr r assms show ?thesis
        by (simp add: stop_completed_def split: member.splits)
    qed
  qed
qed

lemma stops_inv_post_routes:
  assumes "stops_inv st"
  shows "stops_inv (snd (post_routes e now new_id rnd name i addresses st))"
  using assms
  by (auto simp: post_routes_def stops_inv_def Driver_findByIdAndUpdate_def Let_def list_all_iff
      split: option.splits)

lemma stops_inv_handle: "stops_inv st \<Longrightarrow> stops_inv (handle e rq st)"
proof (cases rq)
  case (Stop_completed now sid data)
  assume "stops_inv st"
  with Stop_completed show ?thesis by (simp add: stops_inv_stop_completed)
next
  case (Post_routes now new_id rnd name i addresses)
  assume "stops_inv st"
  with Post_routes show ?thesis by (simp add: stops_inv_post_routes)
next
  case (Post_complete now routeId i)
  assume "stops_inv st"
  with Post_complete show ?thesis by (simp add: stops_inv_post_complete)
qed (simp_all add: stops_inv_def connection_def disconnect_def post_drivers_def)

lemma stops_inv_reachable: "reachable e st \<Longrightarrow> stops_inv st"
  by (induction rule: reachable.induct) (simp_all add: stops_inv_def init_def stops_inv_handle [unfolded stops_inv_def])

lemma reachable_example_state: "reachable example_env example_state"
  unfolding example_state_def by (intro reachable.intros)

text \<open>
  Claim C7. In every state reachable from the empty database by the handlers, every stop
  of every route has a \<open>completedAt\<close> if and only if its status is completed, and every
  handler, route creation and both stop completions among them, preserves this.
\<close>

theorem stop_invariant:
  "(reachable e st \<longrightarrow>
      (\<forall>r \<in> set (routes st). \<forall>s \<in> set (stops r). (completedAt s \<noteq> None) = (status s = Completed)))
   \<and> (stops_inv st \<longrightarrow> stops_inv (handle e rq st))"
  using stops_inv_reachable [of e st] stops_inv_handle [of st e rq]
  by (auto simp: stops_inv_def list_all_iff stop_inv_def)

theorem stop_invariant_witness:
  "reachable example_env (handle example_env (Post_complete 100 route1 (JStr ''0'')) example_state)
   \<and> map (\<lambda>s. (status s, completedAt s))
        (concat (map stops (routes (handle example_env (Post_complete 100 route1 (JStr ''0'')) example_state))))
      = [(Completed, Some 100), (Pending, None)]
   \<and> list_all (\<lambda>r. list_all (\<lambda>s. (completedAt s \<noteq> None) = (status s = Completed)) (stops r))
        (routes (handle example_env (Post_complete 100 route1 (JStr ''0'')) example_state))"
proof -
  let ?st = "handle example_env (Post_complete 100 route1 (JStr ''0'')) example_state"
  have r: "reachable example_env ?st"
    by (intro reachable.intros reachable_example_state)
  have v: "map (\<lambda>s. (status s, completedAt s)) (concat (map stops (routes ?st)))
      = [(Completed, Some 100), (Pending, None)]"
    by (simp add: example_state_eq example_defs)
  from stop_invariant [of example_env ?st] r
  have "\<forall>r \<in> set (routes ?st). \<forall>s \<in> set (stops r). (completedAt s \<noteq> None) = (status s = Completed)"
    by blast
  then have "list_all (\<lambda>r. list_all (\<lambda>s. (completedAt s \<noteq> None) = (status s = Completed)) (stops r))
        (routes ?st)"
    by (simp add: list_all_iff)
  with r v show ?thesis by blast
qed

section \<open>Latest positions\<close>

lemma three_reports_locations:
  "locations three_reports =
     [\<lparr>driverId = driver1, lat = JNum (Fin 10), lng = JNum (Fin 20), timestamp = 20\<rparr>,
      \<lparr>driverId = driver2, lat = JNum (Fin (- 1.2)), lng = JNum (Fin 36.7), timestamp = 22\<rparr>,
      \<lparr>driverId = driver1, lat = JNum (Fin 10.5), lng = JNum (Fin 20.5), timestamp = 25\<rparr>]"
  by (simp add: three_reports_def example_state_eq example_defs)

lemma same_millisecond_locations:
  "locations same_millisecond =
     [\<lparr>driverId = driver1, lat = JNum (Fin 10), lng = JNum (Fin 20), timestamp = 20\<rparr>,
      \<lparr>driverId = driver1, lat = JNum (Fin 10.5), lng = JNum (Fin 20.5), timestamp = 20\<rparr>]"
  by (simp add: same_millisecond_def example_state_eq example_defs)

lemma sort_three_reports:
  "sort_timestamp_desc example_env (locations three_reports) =
     [\<lparr>driverId = driver1, lat = JNum (Fin 10.5), lng = JNum (Fin 20.5), timestamp = 25\<rparr>,
      \<lparr>driverId = driver2, lat = JNum (Fin (- 1.2)), lng = JNum (Fin 36.7), timestamp = 22\<rparr>,
      \<lparr>driverId = driver1, lat = JNum (Fin 10), lng = JNum (Fin 20), timestamp = 20\<rparr>]"
  by (simp add: three_reports_locations example_env_def)

lemma sort_stage_three_reports:
  "sort_stage (locations three_reports) (sort_timestamp_desc example_env (locations three_reports))"
  unfolding sort_three_reports unfolding three_reports_locations
  by (simp add: sort_stage_def)

subsection \<open>The group stage\<close>

lemma group_stage_extends: "\<exists>zs. group_stage acc ds = acc @ zs"
  by (induction ds arbitrary: acc) (auto, metis append.assoc)

lemma set_group_stage_acc: "set acc \<subseteq> set (group_stage acc ds)"
  using group_stage_extends [of acc ds] by auto

lemma latest_id_first_of [simp]: "latest_id (first_of d) = nullish (driverId d)"
  by (simp add: first_of_def)

lemma latest_timestamp_first_of [simp]: "latest_timestamp (first_of d) = timestamp d"
  by (simp add: first_of_def)

lemma keys_group_stage:
  "latest_id ` set (group_stage acc ds) = latest_id ` set acc \<union> (\<lambda>d. nullish (driverId d)) ` set ds"
  by (induction ds arbitrary: acc) auto

lemma distinct_group_stage:
  "distinct (map latest_id acc) \<Longrightarrow> distinct (map latest_id (group_stage acc ds))"
  by (induction ds arbitrary: acc) auto

lemma group_stage_first:
  assumes "find (\<lambda>x. nullish (driverId x) = k) ds = Some d'"
    and "k \<notin> latest_id ` set acc"
  shows "first_of d' \<in> set (group_stage acc ds)"
  using assms
proof (induction ds arbitrary: acc)
  case Nil
  then show ?case by simp
next
  case (Cons d0 ds)
  show ?case
  proof (cases "nullish (driverId d0) = k")
    case True
    with Cons.prems have "d' = d0"
      and "group_stage acc (d0 # ds) = group_stage (acc @ [first_of d0]) ds"
      by auto
    then show ?thesis
      using set_group_stage_acc [of "acc @ [first_of d0]" ds] by auto
  next
    case False
    let ?acc = "if nullish (driverId d0) \<in> set (map latest_id acc) then acc else acc @ [first_of d0]"
    from False Cons.prems(1) have "find (\<lambda>x. nullish (driverId x) = k) ds = Some d'"
      by simp
    moreover from False Cons.prems(2) have "k \<notin> latest_id ` set ?acc"
      by auto
    ultimately have "first_of d' \<in> set (group_stage ?acc ds)"
      by (rule Cons.IH)
    then show ?thesis by (auto split: if_splits)
  qed
qed

lemma sorted_first_newest:
  assumes "sorted_wrt (\<lambda>a b. timestamp b \<le> timestamp a) ds"
    and "find P ds = Some d'"
  shows "\<forall>x \<in> set ds. P x \<longrightarrow> timestamp x \<le> timestamp d'"
  using assms by (induction ds) (auto split: if_splits)

lemma find_exists: "x \<in> set xs \<Longrightarrow> P x \<Longrightarrow> \<exists>y. find P xs = Some y"
  by (cases "find P xs") (auto simp: find_None_iff)

lemma find_distinct_key:
  "distinct (map f xs) \<Longrightarrow> x \<in> set xs \<Longrightarrow> find (\<lambda>y. f y = f x) xs = Some x"
  by (induction xs) (auto simp: rev_image_eqI)

lemma find_filter:
  "find P xs = Some x \<Longrightarrow> Q x \<Longrightarrow> find P (filter Q xs) = Some x"
  by (induction xs) (auto split: if_splits)

subsection \<open>The latest position of the specification\<close>

lemma LatestPosition_snoc:
  "LatestPosition k (ds @ [d]) =
     (if nullish (driverId d) = k
         \<and> (case LatestPosition k ds of None \<Rightarrow> True | Some b \<Rightarrow> timestamp b \<le> timestamp d)
      then Some d else LatestPosition k ds)"
  by (simp add: LatestPosition_def)

lemma LatestPosition_Nil [simp]: "LatestPosition k [] = None"
  by (simp add: LatestPosition_def)

lemma LatestPosition_None:
  "(LatestPosition k ds = None) = (\<forall>x \<in> set ds. nullish (driverId x) \<noteq> k)"
  by (induction ds rule: rev_induct) (auto simp: LatestPosition_snoc split: option.splits)

lemma LatestPosition_Some:
  "LatestPosition k ds = Some b \<Longrightarrow>
   b \<in> set ds \<and> nullish (driverId b) = k
   \<and> (\<forall>x \<in> set ds. nullish (driverId x) = k \<longrightarrow> timestamp x \<le> timestamp b)"
proof (induction ds arbitrary: b rule: rev_induct)
  case Nil
  then show ?case by simp
next
  case (snoc d ds)
  show ?case
  proof (cases "LatestPosition k ds")
    case None
    with snoc.prems LatestPosition_None [of k ds] show ?thesis
      by (auto simp: LatestPosition_snoc split: if_splits)
  next
    case (Some b0)
    from snoc.IH [OF Some] snoc.prems Some show ?thesis
      by (fastforce simp: LatestPosition_snoc split: if_splits)
  qed
qed

text \<open>
  Claim C5. Whatever reports are stored, and in whatever order the sort stage hands them
  on, \<^verbatim>\<open>GET /api/locations\<close> returns one entry for each driver id with a stored
  report and no second entry for any: the ids of the entries are distinct, they are
  exactly the ids of the stored reports, and there are as many entries as ids (a hundred
  for the reports of a hundred drivers). Reports without an id, absent or null, share
  the key null.
\<close>

theorem one_entry_per_driver:
  assumes "sort_stage (locations st) (sort_timestamp_desc e (locations st))"
  shows "api_locations e st = Json_locations (aggregate_latest e st)
    \<and> distinct (map latest_id (aggregate_latest e st))
    \<and> set (map latest_id (aggregate_latest e st)) = (\<lambda>d. nullish (driverId d)) ` set (locations st)
    \<and> length (aggregate_latest e st) = card ((\<lambda>d. nullish (driverId d)) ` set (locations st))"
proof -
  let ?ys = "sort_timestamp_desc e (locations st)"
  from assms have same: "set ?ys = set (locations st)"
    by (auto simp: sort_stage_def dest: mset_eq_setD)
  have d: "distinct (map latest_id (aggregate_latest e st))"
    unfolding aggregate_latest_def by (rule distinct_group_stage) simp
  have k: "set (map latest_id (aggregate_latest e st)) = (\<lambda>d. nullish (driverId d)) ` set (locations st)"
    unfolding aggregate_latest_def using keys_group_stage [of "[]" ?ys] same by simp
  have "length (aggregate_latest e st) = length (map latest_id (aggregate_latest e st))"
    by simp
  also have "\<dots> = card (set (map latest_id (aggregate_latest e st)))"
    using d by (simp only: distinct_card)
  finally have "length (aggregate_latest e st) = card ((\<lambda>d. nullish (driverId d)) ` set (locations st))"
    using k by simp
  with d k show ?thesis by (simp add: api_locations_def)
qed

theorem one_entry_per_driver_witness:
  "sort_stage (locations three_reports) (sort_timestamp_desc example_env (locations three_reports))
   \<and> map driverId (locations three_reports) = [driver1, driver2, driver1]
   \<and> distinct (map latest_id (aggregate_latest example_env three_reports))
   \<and> set (map latest_id (aggregate_latest example_env three_reports)) = {driver1, driver2}
   \<and> length (aggregate_latest example_env three_reports) = 2"
proof -
  have ids: "map driverId (locations three_reports) = [driver1, driver2, driver1]"
    by (simp add: three_reports_locations)
  have keys: "(\<lambda>d. nullish (driverId d)) ` set (locations three_reports) = {driver1, driver2}"
    by (auto simp: three_reports_locations nullish_def driver1_def driver2_def)
  have "card {driver1, driver2} = 2"
    by (simp add: driver1_def driver2_def)
  with one_entry_per_driver [OF sort_stage_three_reports] sort_stage_three_reports ids keys
  show ?thesis by simp
qed

text \<open>
  Claim C1, as the code has it. For every driver id with a stored report, the entry
  \<^verbatim>\<open>GET /api/locations\<close> returns for that id is the projection of the report of that
  id that the sort stage hands on first. That report is a stored one and no stored
  report of the id has a later timestamp, in whatever order the reports were stored;
  the variant of \<^verbatim>\<open>README.md\<close> returns the same entry when its coordinates are not
  null. The entry has the timestamp of the specification's latest position, and is
  that report when no other report of the id has the same timestamp. Among reports
  with the same greatest timestamp the code prefers none: the one returned is the one
  the sort stage puts first, and MongoDB returns documents with equal sort keys in any
  order. The counterexample stores two reports of one driver within one millisecond.
  The collection is in sort order as it stands, and the group stage on it returns the
  first report, not the one applied last; so not every answer the sort stage allows is
  the last applied one.
\<close>

theorem newest_report_per_driver:
  assumes "sort_stage (locations st) (sort_timestamp_desc e (locations st))"
    and "d \<in> set (locations st)"
  shows "\<exists>d'. find (\<lambda>x. nullish (driverId x) = nullish (driverId d))
                (sort_timestamp_desc e (locations st)) = Some d'
         \<and> d' \<in> set (locations st)
         \<and> nullish (driverId d') = nullish (driverId d)
         \<and> (\<forall>x \<in> set (locations st).
               nullish (driverId x) = nullish (driverId d) \<longrightarrow> timestamp x \<le> timestamp d')
         \<and> find (\<lambda>g. latest_id g = nullish (driverId d)) (aggregate_latest e st) = Some (first_of d')
         \<and> (nullish (lat d') \<noteq> JNull \<and> nullish (lng d') \<noteq> JNull \<longrightarrow>
              find (\<lambda>g. latest_id g = nullish (driverId d)) (match_stage (aggregate_latest e st))
                = Some (first_of d'))
         \<and> (\<exists>b. LatestPosition (nullish (driverId d)) (locations st) = Some b
                \<and> timestamp b = timestamp d'
                \<and> ((\<forall>x \<in> set (locations st).
                       nullish (driverId x) = nullish (driverId d) \<and> timestamp x = timestamp d'
                       \<longrightarrow> x = d') \<longrightarrow> b = d'))"
proof -
  let ?ys = "sort_timestamp_desc e (locations st)"
  let ?k = "nullish (driverId d)"
  from assms(1) have same: "set ?ys = set (locations st)"
    and sorted: "sorted_wrt (\<lambda>a b. timestamp b \<le> timestamp a) ?ys"
    by (auto simp: sort_stage_def dest: mset_eq_setD)
  from assms(2) same have "d \<in> set ?ys" by simp
  then obtain d' where first: "find (\<lambda>x. nullish (driverId x) = ?k) ?ys = Some d'"
    using find_exists [of d ?ys "\<lambda>x. nullish (driverId x) = ?k"] by auto
  from find_Some_P [OF first] same have mem: "d' \<in> set (locations st)"
    and key: "nullish (driverId d') = ?k"
    by auto
  from sorted_first_newest [OF sorted first] same
  have newest: "\<forall>x \<in> set (locations st). nullish (driverId x) = ?k \<longrightarrow> timestamp x \<le> timestamp d'"
    by simp
  have entry: "first_of d' \<in> set (aggregate_latest e st)"
    unfolding aggregate_latest_def by (rule group_stage_first [OF first]) simp
  have "distinct (map latest_id (aggregate_latest e st))"
    unfolding aggregate_latest_def by (rule distinct_group_stage) simp
  from find_distinct_key [OF this entry] key
  have found: "find (\<lambda>g. latest_id g = ?k) (aggregate_latest e st) = Some (first_of d')"
    by simp
  have fixed: "find (\<lambda>g. latest_id g = ?k) (match_stage (aggregate_latest e st)) = Some (first_of d')"
    if "nullish (lat d') \<noteq> JNull \<and> nullish (lng d') \<noteq> JNull"
    unfolding match_stage_def using found that by (intro find_filter) (simp_all add: first_of_def)
  from assms(2) have "LatestPosition ?k (locations st) \<noteq> None"
    by (auto simp: LatestPosition_None)
  then obtain b where b: "LatestPosition ?k (locations st) = Some b" by blast
  note bs = LatestPosition_Some [OF b]
  from bs mem key newest have ts: "timestamp b = timestamp d'"
    by (metis order_antisym)
  have "b = d'"
    if "\<forall>x \<in> set (locations st). nullish (driverId x) = ?k \<and> timestamp x = timestamp d' \<longrightarrow> x = d'"
    using that bs ts by blast
  with b ts
  have spec: "\<exists>b. LatestPosition ?k (locations st) = Some b \<and> timestamp b = timestamp d'
      \<and> ((\<forall>x \<in> set (locations st). nullish (driverId x) = ?k \<and> timestamp x = timestamp d' \<longrightarrow> x = d')
          \<longrightarrow> b = d')"
    by blast
  from first mem key newest found fixed spec show ?thesis
    by (intro exI [of _ d']) blast
qed

theorem newest_report_per_driver_witness:
  "sort_stage (locations three_reports) (sort_timestamp_desc example_env (locations three_reports))
   \<and> \<lparr>driverId = driver1, lat = JNum (Fin 10), lng = JNum (Fin 20), timestamp = 20\<rparr>
       \<in> set (locations three_reports)
   \<and> find (\<lambda>x. nullish (driverId x) = driver1) (sort_timestamp_desc example_env (locations three_reports))
       = Some \<lparr>driverId = driver1, lat = JNum (Fin 10.5), lng = JNum (Fin 20.5), timestamp = 25\<rparr>
   \<and> find (\<lambda>g. latest_id g = driver1) (aggregate_latest example_env three_reports)
       = Some \<lparr>latest_id = driver1, latest_lat = JNum (Fin 10.5), latest_lng = JNum (Fin 20.5),
               latest_timestamp = 25\<rparr>
   \<and> LatestPosition driver1 (locations three_reports)
       = Some \<lparr>driverId = driver1, lat = JNum (Fin 10.5), lng = JNum (Fin 20.5), timestamp = 25\<rparr>"
proof -
  let ?d = "\<lparr>driverId = driver1, lat = JNum (Fin 10), lng = JNum (Fin 20), timestamp = 20\<rparr>"
  let ?n = "\<lparr>driverId = driver1, lat = JNum (Fin 10.5), lng = JNum (Fin 20.5), timestamp = 25\<rparr>"
  have m: "?d \<in> set (locations three_reports)"
    by (simp add: three_reports_locations)
  have k: "nullish (driverId ?d) = driver1"
    by (simp add: nullish_def driver1_def)
  have f: "find (\<lambda>x. nullish (driverId x) = driver1)
             (sort_timestamp_desc example_env (locations three_reports)) = Some ?n"
    by (simp add: sort_three_reports nullish_def driver1_def)
  from newest_report_per_driver [OF sort_stage_three_reports m]
  obtain d' where "find (\<lambda>x. nullish (driverId x) = nullish (driverId ?d))
                (sort_timestamp_desc example_env (locations three_reports)) = Some d'"
    and "find (\<lambda>g. latest_id g = nullish (driverId ?d)) (aggregate_latest example_env three_reports)
       = Some (first_of d')"
    by blast
  with f k have "find (\<lambda>g. latest_id g = driver1) (aggregate_latest example_env three_reports)
       = Some (first_of ?n)"
    by simp
  then have e: "find (\<lambda>g. latest_id g = driver1) (aggregate_latest example_env three_reports)
       = Some \<lparr>latest_id = driver1, latest_lat = JNum (Fin 10.5), latest_lng = JNum (Fin 20.5),
               latest_timestamp = 25\<rparr>"
    by (simp add: first_of_def nullish_def driver1_def)
  have "LatestPosition driver1 (locations three_reports) = Some ?n"
    by (simp add: LatestPosition_def three_reports_locations nullish_def driver1_def driver2_def)
  with e f show ?thesis
    using sort_stage_three_reports m by simp
qed

theorem ties_not_last_applied_counterexample:
  "locations same_millisecond =
       [\<lparr>driverId = driver1, lat = JNum (Fin 10), lng = JNum (Fin 20), timestamp = 20\<rparr>,
        \<lparr>driverId = driver1, lat = JNum (Fin 10.5), lng = JNum (Fin 20.5), timestamp = 20\<rparr>]
   \<and> LatestPosition driver1 (locations same_millisecond)
       = Some \<lparr>driverId = driver1, lat = JNum (Fin 10.5), lng = JNum (Fin 20.5), timestamp = 20\<rparr>
   \<and> sort_stage (locations same_millisecond) (locations same_millisecond)
   \<and> group_stage [] (locations same_millisecond)
       = [\<lparr>latest_id = driver1, latest_lat = JNum (Fin 10), latest_lng = JNum (Fin 20),
           latest_timestamp = 20\<rparr>]
   \<and> sort_stage (locations same_millisecond) (rev (locations same_millisecond))
   \<and> group_stage [] (rev (locations same_millisecond))
       = [\<lparr>latest_id = driver1, latest_lat = JNum (Fin 10.5), latest_lng = JNum (Fin 20.5),
           latest_timestamp = 20\<rparr>]
   \<and> \<not> (\<forall>ys. sort_stage (locations same_millisecond) ys \<longrightarrow>
            find (\<lambda>g. latest_id g = driver1) (group_stage [] ys)
              = map_option first_of (LatestPosition driver1 (locations same_millisecond)))"
proof -
  let ?r1 = "\<lparr>driverId = driver1, lat = JNum (Fin 10), lng = JNum (Fin 20), timestamp = 20\<rparr>"
  let ?r2 = "\<lparr>driverId = driver1, lat = JNum (Fin 10.5), lng = JNum (Fin 20.5), timestamp = 20\<rparr>"
  note l = same_millisecond_locations
  have spec: "LatestPosition driver1 (locations same_millisecond) = Some ?r2"
    by (simp add: LatestPosition_def l nullish_def driver1_def)
  have s1: "sort_stage (locations same_millisecond) (locations same_millisecond)"
    by (simp add: sort_stage_def l)
  have g1: "group_stage [] (locations same_millisecond)
       = [\<lparr>latest_id = driver1, latest_lat = JNum (Fin 10), latest_lng = JNum (Fin 20),
           latest_timestamp = 20\<rparr>]"
    by (simp add: l first_of_def nullish_def driver1_def)
  have s2: "sort_stage (locations same_millisecond) (rev (locations same_millisecond))"
    by (simp add: sort_stage_def l)
  have g2: "group_stage [] (rev (locations same_millisecond))
       = [\<lparr>latest_id = driver1, latest_lat = JNum (Fin 10.5), latest_lng = JNum (Fin 20.5),
           latest_timestamp = 20\<rparr>]"
    by (simp add: l first_of_def nullish_def driver1_def)
  have "find (\<lambda>g. latest_id g = driver1) (group_stage [] (locations same_millisecond))
          \<noteq> map_option first_of (LatestPosition driver1 (locations same_millisecond))"
    unfolding g1 spec by (simp add: first_of_def nullish_def driver1_def)
  with s1 have "\<not> (\<forall>ys. sort_stage (locations same_millisecond) ys \<longrightarrow>
            find (\<lambda>g. latest_id g = driver1) (group_stage [] ys)
              = map_option first_of (LatestPosition driver1 (locations same_millisecond)))"
    by blast
  with l spec s1 g1 s2 g2 show ?thesis by blast
qed

section \<open>Validation of coordinates\<close>

lemma validated_outcome:
  "(fst (location_update_validated e now now' sid (Some d) st) = Invalid_coordinates) =
   (\<not> truthy (data_lat d) \<or> \<not> truthy (data_lng d) \<or> isNaN e (data_lat d) \<or> isNaN e (data_lng d))"
  by (auto simp: location_update_validated_def split: sum.splits)

lemma location_update_stores:
  assumes "castObjectId e (data_driverId d) = Some i"
    and "castNumber e (data_lat d) = Some a" and "castNumber e (data_lng d) = Some b"
  shows "fst (location_update e now now' sid (Some d) st) = Done"
    and "locations (snd (location_update e now now' sid (Some d) st)) =
           locations st @ [\<lparr>driverId = i, lat = a, lng = b, timestamp = now\<rparr>]"
  using assms
  by (simp_all add: location_update_def Location_save_def Driver_findByIdAndUpdate_def broadcast_emit_def)

text \<open>
  Claim C3, as the code has it. The validated handler rejects a report exactly when its
  latitude or longitude is falsy or not a number for \<^verbatim>\<open>isNaN\<close>; neither handler
  compares a coordinate with a range. A report the validated handler rejects leaves the
  state as it was, so it is not stored and no later answer of \<^verbatim>\<open>GET /api/locations\<close>
  shows it. The handler of \<^verbatim>\<open>server.js\<close> stores every report whose fields pass the
  schema casts, whatever the values. The counterexample: latitude 200 is stored by both
  handlers and returned by the query.
\<close>

theorem only_falsy_or_NaN_rejected:
  "(fst (location_update_validated e now now' sid (Some d) st) = Invalid_coordinates) =
     (\<not> truthy (data_lat d) \<or> \<not> truthy (data_lng d) \<or> isNaN e (data_lat d) \<or> isNaN e (data_lng d))
   \<and> (fst (location_update_validated e now now' sid (Some d) st) = Invalid_coordinates \<longrightarrow>
        snd (location_update_validated e now now' sid (Some d) st) = st
        \<and> api_locations e (snd (location_update_validated e now now' sid (Some d) st))
            = api_locations e st)
   \<and> (castObjectId e (data_driverId d) = Some i \<and> castNumber e (data_lat d) = Some a
        \<and> castNumber e (data_lng d) = Some b \<longrightarrow>
        fst (location_update e now now' sid (Some d) st) = Done
        \<and> locations (snd (location_update e now now' sid (Some d) st)) =
            locations st @ [\<lparr>driverId = i, lat = a, lng = b, timestamp = now\<rparr>])"
proof (intro conjI impI)
  show "(fst (location_update_validated e now now' sid (Some d) st) = Invalid_coordinates) =
     (\<not> truthy (data_lat d) \<or> \<not> truthy (data_lng d) \<or> isNaN e (data_lat d) \<or> isNaN e (data_lng d))"
    by (rule validated_outcome)
next
  assume "fst (location_update_validated e now now' sid (Some d) st) = Invalid_coordinates"
  then have "\<not> truthy (data_lat d) \<or> \<not> truthy (data_lng d) \<or> isNaN e (data_lat d) \<or> isNaN e (data_lng d)"
    by (simp only: validated_outcome)
  then show same: "snd (location_update_validated e now now' sid (Some d) st) = st"
    by (auto simp: location_update_validated_def)
  then show "api_locations e (snd (location_update_validated e now now' sid (Some d) st))
            = api_locations e st"
    by simp
next
  assume a: "castObjectId e (data_driverId d) = Some i \<and> castNumber e (data_lat d) = Some a
        \<and> castNumber e (data_lng d) = Some b"
  then show "fst (location_update e now now' sid (Some d) st) = Done"
    by (simp add: location_update_stores)
  from a show "locations (snd (location_update e now now' sid (Some d) st)) =
            locations st @ [\<lparr>driverId = i, lat = a, lng = b, timestamp = now\<rparr>]"
    by (simp add: location_update_stores)
qed

theorem latitude_200_stored_counterexample:
  "fst (location_update example_env 20 21 ''A1'' (report driver1 200 36.8) example_state) = Done
   \<and> api_locations example_env
        (snd (location_update example_env 20 21 ''A1'' (report driver1 200 36.8) example_state))
      = Json_locations [\<lparr>latest_id = driver1, latest_lat = JNum (Fin 200),
                          latest_lng = JNum (Fin 36.8), latest_timestamp = 20\<rparr>]
   \<and> fst (location_update_validated example_env 20 21 ''A1'' (report driver1 200 36.8) example_state) = Done
   \<and> api_locations example_env
        (snd (location_update_validated example_env 20 21 ''A1'' (report driver1 200 36.8) example_state))
      = Json_locations [\<lparr>latest_id = driver1, latest_lat = JNum (Fin 200),
                          latest_lng = JNum (Fin 36.8), latest_timestamp = 20\<rparr>]"
  by (simp add: example_state_eq example_defs api_locations_def aggregate_latest_def first_of_def
      nullish_def)

theorem only_falsy_or_NaN_rejected_witness:
  "truthy (JStr ''abc'') \<and> isNaN example_env (JStr ''abc'')
   \<and> location_update_validated example_env 20 21 ''A1''
        (Some \<lparr>data_driverId = driver1, data_lat = JStr ''abc'', data_lng = JNum (Fin 36.8)\<rparr>)
        example_state
      = (Invalid_coordinates, example_state)
   \<and> castNumber example_env (JNum (Fin 200)) = Some (JNum (Fin 200))
   \<and> locations (snd (location_update example_env 20 21 ''A1'' (report driver1 200 36.8) example_state))
      = [\<lparr>driverId = driver1, lat = JNum (Fin 200), lng = JNum (Fin 36.8), timestamp = 20\<rparr>]"
proof -
  let ?d = "\<lparr>data_driverId = driver1, data_lat = JStr ''abc'', data_lng = JNum (Fin 36.8)\<rparr>"
  let ?d2 = "\<lparr>data_driverId = driver1, data_lat = JNum (Fin 200), data_lng = JNum (Fin 36.8)\<rparr>"
  have t: "truthy (JStr ''abc'')" by simp
  have n: "isNaN example_env (JStr ''abc'')"
    by (simp add: isNaN_def example_env_def)
  have c: "castObjectId example_env (data_driverId ?d2) = Some driver1
        \<and> castNumber example_env (data_lat ?d2) = Some (JNum (Fin 200))
        \<and> castNumber example_env (data_lng ?d2) = Some (JNum (Fin 36.8))"
    by (simp add: example_env_def driver1_def)
  have e: "locations example_state = []"
    by (simp add: example_state_eq)
  note w = only_falsy_or_NaN_rejected [of example_env 20 21 "''A1''" ?d example_state]
  note w2 = only_falsy_or_NaN_rejected [of example_env 20 21 "''A1''" ?d2 example_state
      driver1 "JNum (Fin 200)" "JNum (Fin 36.8)"]
  from w n have "fst (location_update_validated example_env 20 21 ''A1'' (Some ?d) example_state)
      = Invalid_coordinates"
    by simp
  with w have "location_update_validated example_env 20 21 ''A1'' (Some ?d) example_state
      = (Invalid_coordinates, example_state)"
    by (metis prod.collapse)
  moreover from w2 c e
  have "locations (snd (location_update example_env 20 21 ''A1'' (Some ?d2) example_state))
      = [\<lparr>driverId = driver1, lat = JNum (Fin 200), lng = JNum (Fin 36.8), timestamp = 20\<rparr>]"
    by simp
  ultimately show ?thesis
    using t n c by (simp add: report_def)
qed

end
